theory Spec2Isabelle
  imports Main "HOL-Library.AList"
begin

section \<open>Python values used by the driver\<close>

text \<open>
  The driver \<^verbatim>\<open>src/driver/ks53230.py\<close> works on Python strings, integers,
  floats and a dictionary. Strings are modelled as \<^typ>\<open>string\<close> restricted to ASCII
  text (Python's \<^verbatim>\<open>\d\<close>, \<^verbatim>\<open>int()\<close> and \<^verbatim>\<open>float()\<close> also accept non-ASCII decimal
  digits and whitespace; such text is outside the model). Python exceptions are values of type \<open>error\<close>,
  named after the exception class; the string is the message for the exceptions the
  source raises itself and a short tag for those the interpreter raises. The spec names
  errors by their role: InvalidParameter is the \<^verbatim>\<open>AttributeError\<close> that
  \<^verbatim>\<open>configureTrigger\<close> raises, MissingParameter the one of \<^verbatim>\<open>trigLevel\<close>,
  TriggerNotConfigured the \<^verbatim>\<open>Exception\<close> of \<^verbatim>\<open>freq\<close>, and MalformedValue a value that
  cannot be read (\<^verbatim>\<open>ValueError\<close> from \<^verbatim>\<open>int\<close> and \<^verbatim>\<open>float\<close>, \<^verbatim>\<open>IndexError\<close> from the scan
  for the header). \<open>DeviceTimeout\<close> stands for the session giving no answer.
\<close>

datatype error =
    AttributeError string
  | ValueError string
  | TypeError string
  | KeyError string
  | IndexError string
  | NameError string
  | PyException string
  | DeviceTimeout

subsection \<open>Characters and whitespace\<close>

definition is_space :: "char \<Rightarrow> bool" where
  \<comment> \<open>the ASCII characters at which Python's \<^verbatim>\<open>str.split()\<close> splits\<close>
  "is_space c = (c \<in> set [CHR '' '', CHR 0x09, CHR 0x0A, CHR 0x0B, CHR 0x0C, CHR 0x0D,
                           CHR 0x1C, CHR 0x1D, CHR 0x1E, CHR 0x1F])"

definition c_space :: "char \<Rightarrow> bool" where
  \<comment> \<open>the whitespace \<^verbatim>\<open>int()\<close> and \<^verbatim>\<open>float()\<close> ignore around an ASCII text: space and
      the characters 0x09 to 0x0D. The separators 0x1C to 0x1F are not among them.\<close>
  "c_space c = (c \<in> set [CHR '' '', CHR 0x09, CHR 0x0A, CHR 0x0B, CHR 0x0C, CHR 0x0D])"

definition strip :: "string \<Rightarrow> string" where
  \<comment> \<open>the text that \<^verbatim>\<open>int()\<close> and \<^verbatim>\<open>float()\<close> read\<close>
  "strip s = rev (dropWhile c_space (rev (dropWhile c_space s)))"

definition digit_val :: "char \<Rightarrow> nat option" where
  "digit_val c = map_of (zip ''0123456789'' [0, 1, 2, 3, 4, 5, 6, 7, 8, 9]) c"

definition is_digit :: "char \<Rightarrow> bool" where
  "is_digit c = (digit_val c \<noteq> None)"

definition digit_char :: "nat \<Rightarrow> char" where
  "digit_char n = ''0123456789'' ! (n mod 10)"

definition lower :: "char \<Rightarrow> char" where
  "lower c = (case map_of (zip ''ABCDEFGHIJKLMNOPQRSTUVWXYZ'' ''abcdefghijklmnopqrstuvwxyz'') c of
                None \<Rightarrow> c | Some l \<Rightarrow> l)"

subsection \<open>\<^verbatim>\<open>str.split\<close>, \<^verbatim>\<open>str.join\<close>, substring test\<close>

text \<open>\<^verbatim>\<open>s.split(sep)\<close> with a one-character separator: empty pieces are kept and the
  result is never empty (\<^verbatim>\<open>"".split(",") == [""]\<close>).\<close>

fun split_on :: "char \<Rightarrow> string \<Rightarrow> string list" where
  "split_on sep [] = [[]]"
| "split_on sep (c # cs) =
     (if c = sep then [] # split_on sep cs
      else (case split_on sep cs of
              [] \<Rightarrow> [[c]]
            | w # ws \<Rightarrow> (c # w) # ws))"

text \<open>\<^verbatim>\<open>s.split()\<close>: maximal runs of non-whitespace characters.\<close>

fun ws_tokens :: "string \<Rightarrow> string \<Rightarrow> string list" where
  "ws_tokens cur [] = (if cur = [] then [] else [cur])"
| "ws_tokens cur (c # cs) =
     (if is_space c then (if cur = [] then ws_tokens [] cs else cur # ws_tokens [] cs)
      else ws_tokens (cur @ [c]) cs)"

definition split_ws :: "string \<Rightarrow> string list" where
  "split_ws s = ws_tokens [] s"

fun join_with :: "string \<Rightarrow> string list \<Rightarrow> string" where
  "join_with sep [] = []"
| "join_with sep [w] = w"
| "join_with sep (w # v # ws) = w @ sep @ join_with sep (v # ws)"

text \<open>\<^verbatim>\<open>sub in s\<close> on strings.\<close>

fun contains :: "string \<Rightarrow> string \<Rightarrow> bool" where
  "contains sub [] = (sub = [])"
| "contains sub (c # cs) = (take (length sub) (c # cs) = sub \<or> contains sub cs)"

subsection \<open>\<^verbatim>\<open>int(str)\<close> and \<^verbatim>\<open>"%d" % n\<close>\<close>

text \<open>A run of decimal digits in which single underscores may separate digits, as
  Python's integer and float literals read by \<^verbatim>\<open>int()\<close> and \<^verbatim>\<open>float()\<close> allow.\<close>

fun digitpart :: "string \<Rightarrow> nat list option" where
  "digitpart [] = None"
| "digitpart [c] = map_option (\<lambda>d. [d]) (digit_val c)"
| "digitpart (c # d # cs) =
     (case digit_val c of
        None \<Rightarrow> None
      | Some v \<Rightarrow> map_option (Cons v) (if d = CHR ''_'' then digitpart cs else digitpart (d # cs)))"

definition nat_of_digits :: "nat list \<Rightarrow> nat" where
  "nat_of_digits ds = foldl (\<lambda>a d. 10 * a + d) 0 ds"

definition signed_digits :: "string \<Rightarrow> int option" where
  \<comment> \<open>an optional sign followed by a digit part\<close>
  "signed_digits t =
     (case t of
        [] \<Rightarrow> None
      | c # r \<Rightarrow>
          if c = CHR ''-'' then map_option (\<lambda>ds. - int (nat_of_digits ds)) (digitpart r)
          else if c = CHR ''+'' then map_option (\<lambda>ds. int (nat_of_digits ds)) (digitpart r)
          else map_option (\<lambda>ds. int (nat_of_digits ds)) (digitpart t))"

definition py_int :: "string \<Rightarrow> error + int" where
  \<comment> \<open>\<^verbatim>\<open>int(s)\<close>: surrounding whitespace is ignored; anything but a decimal integer
      literal raises ValueError. The limit that CPython 3.11 and later put on the number
      of digits of the text is taken as switched off, as in the interpreters of the
      time of the source.\<close>
  "py_int s = (case signed_digits (strip s) of
                 None \<Rightarrow> Inl (ValueError ''invalid literal for int()'')
               | Some n \<Rightarrow> Inr n)"

fun str_nat :: "nat \<Rightarrow> string" where
  "str_nat n = (if n < 10 then [digit_char n] else str_nat (n div 10) @ [digit_char n])"

declare str_nat.simps [simp del]

definition str_int :: "int \<Rightarrow> string" where
  \<comment> \<open>\<^verbatim>\<open>"%d" % n\<close>\<close>
  "str_int n = (if n < 0 then CHR ''-'' # str_nat (nat (- n)) else str_nat (nat n))"

subsection \<open>\<^verbatim>\<open>float(str)\<close> and \<^verbatim>\<open>"%.Nf" % x\<close>\<close>

text \<open>
  A Python float is a binary64 number. \<open>Fin neg m k\<close> is the number \<open>m * 2^k\<close> with
  the sign \<open>neg\<close> (zero keeps its sign); \<^verbatim>\<open>float()\<close> gives the representation with \<open>m\<close>
  odd, or \<open>Fin neg 0 0\<close>. \<open>to_double neg P Q\<close> is the binary64 number nearest to the
  fraction \<open>P / Q\<close>, ties to the even mantissa: 53 bits of mantissa, exponents down to
  \<open>-1074\<close> for the subnormal numbers, and infinity from \<open>2^1024 - 2^970\<close> on.
\<close>

datatype pyfloat = Fin bool nat int | Infinity bool | NaN

definition rne_div :: "nat \<Rightarrow> nat \<Rightarrow> nat" where
  \<comment> \<open>\<open>n / d\<close> rounded to the nearest integer, ties to even\<close>
  "rne_div n d =
     (let q = n div d; r = n mod d
      in if d < 2 * r \<or> (2 * r = d \<and> odd q) then q + 1 else q)"

fun bitlen :: "nat \<Rightarrow> nat" where
  "bitlen n = (if n = 0 then 0 else Suc (bitlen (n div 2)))"

declare bitlen.simps [simp del]

definition floor_log2 :: "nat \<Rightarrow> nat \<Rightarrow> int" where
  \<comment> \<open>the integer part of the binary logarithm of \<open>P / Q\<close>, for positive \<open>P\<close> and \<open>Q\<close>\<close>
  "floor_log2 P Q =
     (let l = int (bitlen P) - int (bitlen Q)
      in if Q * 2 ^ nat l \<le> P * 2 ^ nat (- l) then l else l - 1)"

fun reduce2 :: "nat \<Rightarrow> int \<Rightarrow> nat \<times> int" where
  "reduce2 m k =
     (if m = 0 then (0, 0)
      else if even m then reduce2 (m div 2) (k + 1)
      else (m, k))"

declare reduce2.simps [simp del]

definition to_double :: "bool \<Rightarrow> nat \<Rightarrow> nat \<Rightarrow> pyfloat" where
  "to_double neg P Q =
     (if P = 0 then Fin neg 0 0
      else
        let k = max (floor_log2 P Q - 52) (- 1074);
            m = rne_div (P * 2 ^ nat (- k)) (Q * 2 ^ nat k)
        in if 971 < k \<or> (k = 971 \<and> 2 ^ 53 \<le> m) then Infinity neg
           else (case reduce2 m k of (m', k') \<Rightarrow> Fin neg m' k'))"

definition float_of_int :: "int \<Rightarrow> pyfloat" where
  \<comment> \<open>an integer as a float, as \<^verbatim>\<open>"%.6f" % n\<close> converts it; exact below \<open>2^53\<close>. Line 296
      applies it to integers from 0 to 3600 only.\<close>
  "float_of_int n = Fin (n < 0) (nat \<bar>n\<bar>) 0"

definition opt_digits :: "string \<Rightarrow> nat list option" where
  \<comment> \<open>a digit part that may be missing (before or after the decimal point)\<close>
  "opt_digits t = (if t = [] then Some [] else digitpart t)"

definition float_body :: "bool \<Rightarrow> string \<Rightarrow> pyfloat option" where
  "float_body neg t =
     (let mant = takeWhile (\<lambda>c. c \<noteq> CHR ''e'' \<and> c \<noteq> CHR ''E'') t;
          rest = dropWhile (\<lambda>c. c \<noteq> CHR ''e'' \<and> c \<noteq> CHR ''E'') t;
          ip = takeWhile (\<lambda>c. c \<noteq> CHR ''.'') mant;
          fp = (case dropWhile (\<lambda>c. c \<noteq> CHR ''.'') mant of [] \<Rightarrow> [] | _ # f \<Rightarrow> f);
          ex = (case rest of [] \<Rightarrow> Some 0 | _ # x \<Rightarrow> signed_digits x)
      in if map lower t = ''inf'' \<or> map lower t = ''infinity'' then Some (Infinity neg)
         else if map lower t = ''nan'' then Some NaN
         else if ip = [] \<and> fp = [] then None
         else (case (opt_digits ip, opt_digits fp, ex) of
                 (Some ds, Some fs, Some e) \<Rightarrow>
                    Some (to_double neg
                            (nat_of_digits (ds @ fs) * 10 ^ nat (e - int (length fs)))
                            (10 ^ nat (int (length fs) - e)))
               | _ \<Rightarrow> None))"

definition py_float :: "string \<Rightarrow> error + pyfloat" where
  \<comment> \<open>\<^verbatim>\<open>float(s)\<close>: ValueError unless the stripped text is a float literal\<close>
  "py_float s =
     (let t = strip s;
          r = (case t of
                 [] \<Rightarrow> None
               | c # u \<Rightarrow> if c = CHR ''-'' then float_body True u
                          else if c = CHR ''+'' then float_body False u
                          else float_body False t)
      in case r of None \<Rightarrow> Inl (ValueError ''could not convert string to float'')
                 | Some x \<Rightarrow> Inr x)"

definition pad_zeros :: "nat \<Rightarrow> string \<Rightarrow> string" where
  "pad_zeros n t = replicate (n - length t) CHR ''0'' @ t"

definition fmt_f :: "nat \<Rightarrow> pyfloat \<Rightarrow> string" where
  \<comment> \<open>\<^verbatim>\<open>"%.pf" % x\<close>: the binary value in fixed notation, rounded to \<open>p\<close> decimals,
      ties to even\<close>
  "fmt_f p x =
     (case x of
        NaN \<Rightarrow> ''nan''
      | Infinity neg \<Rightarrow> (if neg then ''-inf'' else ''inf'')
      | Fin neg m k \<Rightarrow>
          (let scaled = (if 0 \<le> k then m * 2 ^ nat k * 10 ^ p
                         else rne_div (m * 10 ^ p) (2 ^ nat (- k)))
           in (if neg then ''-'' else []) @ str_nat (scaled div 10 ^ p)
              @ (if p = 0 then [] else ''.'' @ pad_zeros p (str_nat (scaled mod 10 ^ p)))))"

subsection \<open>The configuration dictionary\<close>

text \<open>A Python \<^verbatim>\<open>dict\<close> from strings to strings, in insertion order: assigning to a
  key that is present replaces its value in place.\<close>

type_synonym dict = "(string \<times> string) list"

definition has_key :: "dict \<Rightarrow> string \<Rightarrow> bool" where
  \<comment> \<open>\<^verbatim>\<open>k in d\<close>\<close>
  "has_key d k = (map_of d k \<noteq> None)"

definition getitem :: "dict \<Rightarrow> string \<Rightarrow> error + string" where
  \<comment> \<open>\<^verbatim>\<open>d[k]\<close>: KeyError when the key is absent\<close>
  "getitem d k = (case map_of d k of None \<Rightarrow> Inl (KeyError k) | Some v \<Rightarrow> Inr v)"

definition keys :: "dict \<Rightarrow> string list" where
  "keys d = map fst d"

definition parse_token :: "dict \<Rightarrow> string \<Rightarrow> dict" where
  "parse_token d tok =
     (if count_list tok CHR '':'' = 1
      then AList.update (takeWhile (\<lambda>c. c \<noteq> CHR '':'') tok)
                        (drop 1 (dropWhile (\<lambda>c. c \<noteq> CHR '':'') tok)) d
      else d)"

definition parseConfig :: "string \<Rightarrow> dict" where
  \<comment> \<open>Modelled from the spec: \<^verbatim>\<open>GenCounter.parseConfig\<close> is inherited from
      \<^verbatim>\<open>driver/gencounter.py\<close>, which is not among the sources. The spec (4.1): the
      text is split on whitespace; a token with exactly one colon gives a key and a
      value, any other token is dropped; a later duplicate key overwrites; the empty
      text gives the empty mapping; no error is raised.\<close>
  "parseConfig text = foldl parse_token [] (split_ws text)"


text \<open>\<^verbatim>\<open>re.findall(r"(<p>\d)", text)\<close> for a literal prefix \<open>p\<close>: the non-overlapping
  occurrences, from the left, of \<open>p\<close> followed by one digit. The counter is the number
  of characters of the last match still to be skipped.\<close>

fun findall_from :: "string \<Rightarrow> nat \<Rightarrow> string \<Rightarrow> string list" where
  "findall_from p skip [] = []"
| "findall_from p skip (c # cs) =
     (if 0 < skip then findall_from p (skip - 1) cs
      else if take (length p) (c # cs) = p
              \<and> (case drop (length p) (c # cs) of [] \<Rightarrow> False | d # _ \<Rightarrow> is_digit d)
           then take (length p + 1) (c # cs) # findall_from p (length p) cs
           else findall_from p 0 cs)"

definition findall_key :: "string \<Rightarrow> string \<Rightarrow> string list" where
  "findall_key p text = findall_from p 0 text"

section \<open>The engine state and its effects\<close>

text \<open>
  What the driver does to the outside world is recorded in the state: the commands
  written to and the queries sent to the device session \<^verbatim>\<open>self._drv\<close>, the calls of
  \<^verbatim>\<open>time.sleep\<close> and \<^verbatim>\<open>print\<close>, in the order they happen, and the samples appended to
  the result container \<^verbatim>\<open>meas_out\<close>. The device's answers are an input: the list
  \<open>replies\<close> of the texts it will return to the queries to come. A query that finds the
  list empty gets no answer, which ends the call with the error \<open>DeviceTimeout\<close>.
\<close>

datatype event = Write string | Query string | Sleep nat | Print string

datatype measure = Sample pyfloat | Stamped int pyfloat

record engine =
  savedTrigCfg :: "string option"
  savedTrigLev :: "string option"
  freq_rawcfg :: "string option"
  period_rawcfg :: "string option"
  logger_has_Error :: bool
  events :: "event list"
  replies :: "string list"
  sink :: "measure list"

text \<open>The state after \<^verbatim>\<open>__init__\<close> on the supported interface: nothing saved, nothing
  sent. \<open>logger_has_Error\<close> tells whether the logger object handed to the constructor has
  an attribute \<^verbatim>\<open>Error\<close>, which \<^verbatim>\<open>freq\<close> calls at line 179 (\<^verbatim>\<open>logging.Logger\<close> has
  \<^verbatim>\<open>error\<close>, but no \<^verbatim>\<open>Error\<close>).\<close>

definition new_engine :: "bool \<Rightarrow> string list \<Rightarrow> engine" where
  "new_engine lg rs =
     \<lparr>savedTrigCfg = None, savedTrigLev = None, freq_rawcfg = None, period_rawcfg = None,
      logger_has_Error = lg, events = [], replies = rs, sink = []\<rparr>"

text \<open>A method body is a function from the state to a result and the state it leaves
  behind; a raised exception is the result \<open>Inl\<close>, and the state then holds the effects
  that happened before the raise.\<close>

type_synonym 'a action = "engine \<Rightarrow> (error + 'a) \<times> engine"

definition ret :: "'a \<Rightarrow> 'a action" where
  "ret x s = (Inr x, s)"

definition raise :: "error \<Rightarrow> 'a action" where
  "raise e s = (Inl e, s)"

definition and_then :: "'a action \<Rightarrow> ('a \<Rightarrow> 'b action) \<Rightarrow> 'b action" where
  "and_then m f s = (case m s of (Inl e, s') \<Rightarrow> (Inl e, s') | (Inr x, s') \<Rightarrow> f x s')"

definition seq :: "unit action \<Rightarrow> 'a action \<Rightarrow> 'a action" where
  "seq m n = and_then m (\<lambda>_. n)"

definition lift :: "error + 'a \<Rightarrow> 'a action" where
  "lift r = (case r of Inl e \<Rightarrow> raise e | Inr x \<Rightarrow> ret x)"

fun block :: "unit action list \<Rightarrow> unit action" where
  "block [] = ret ()"
| "block (m # ms) = seq m (block ms)"

fun for_each :: "('a \<Rightarrow> unit action) \<Rightarrow> 'a list \<Rightarrow> unit action" where
  "for_each f [] = ret ()"
| "for_each f (x # xs) = seq (f x) (for_each f xs)"

definition drv_write :: "string \<Rightarrow> unit action" where
  \<comment> \<open>\<^verbatim>\<open>self._drv.write(cmd)\<close>\<close>
  "drv_write cmd s = (Inr (), s\<lparr>events := events s @ [Write cmd]\<rparr>)"

definition drv_query :: "string \<Rightarrow> string action" where
  \<comment> \<open>\<^verbatim>\<open>self._drv.query(cmd)\<close>\<close>
  "drv_query cmd s =
     (case replies s of
        [] \<Rightarrow> (Inl DeviceTimeout, s\<lparr>events := events s @ [Query cmd]\<rparr>)
      | r # rs \<Rightarrow> (Inr r, s\<lparr>events := events s @ [Query cmd], replies := rs\<rparr>))"

definition sleep :: "nat \<Rightarrow> unit action" where
  \<comment> \<open>\<^verbatim>\<open>time.sleep(n)\<close>\<close>
  "sleep n s = (Inr (), s\<lparr>events := events s @ [Sleep n]\<rparr>)"

definition py_print :: "string \<Rightarrow> unit action" where
  "py_print t s = (Inr (), s\<lparr>events := events s @ [Print t]\<rparr>)"

definition addMeasures :: "measure \<Rightarrow> unit action" where
  \<comment> \<open>\<^verbatim>\<open>meas_out.addMeasures(...)\<close>\<close>
  "addMeasures m s = (Inr (), s\<lparr>sink := sink s @ [m]\<rparr>)"

definition step :: int where
  "step = 5"

definition deadtime :: nat where
  "deadtime = 1"

section \<open>\<^verbatim>\<open>trigLevel\<close> (lines 115-150)\<close>

text \<open>
  One turn of the loop over the matched keys. The calls of \<^verbatim>\<open>self.logger.debug\<close> have no
  effect on the state and are left out, except where building their argument raises:
  at line 141 the format string
  \<^verbatim>\<open>"Mode auto for channel %s at %s\%"\<close> ends in a lone percent sign, so the \<^verbatim>\<open>%\<close>
  operator raises \<^verbatim>\<open>ValueError: incomplete format\<close> whenever the auto branch is taken.
\<close>

definition trigLevel_key :: "dict \<Rightarrow> string \<Rightarrow> unit action" where
  "trigLevel_key cfgdict k =
     and_then (lift (getitem cfgdict k)) (\<lambda>cur_t.
     seq (case cur_t of
            [] \<Rightarrow> raise (IndexError ''string index out of range'')
          | c # _ \<Rightarrow>
              if c = CHR ''a'' then raise (ValueError ''incomplete format'')
              else and_then (lift (py_float cur_t)) (\<lambda>volts. ret ()))
    (and_then (lift (py_int [last k])) (\<lambda>ch.
     seq (drv_write (''INPUT'' @ str_int ch @ '':LEVEL:AUTO OFF''))
    (and_then (lift (py_int [last k])) (\<lambda>ch'.
     and_then (lift (getitem cfgdict k)) (\<lambda>v.
     and_then (lift (py_float v)) (\<lambda>x.
     drv_write (''INPUT'' @ str_int ch' @ '':LEVEL '' @ fmt_f 3 x))))))))"

definition trigLevel :: "string \<Rightarrow> unit action" where
  "trigLevel cfgstr =
     (let cfgdict = parseConfig cfgstr;
          ks = findall_key ''trig'' (join_with '' '' (keys cfgdict))
      in if ks = [] then raise (AttributeError ''No valid params passed to trigLevel'')
         else for_each (trigLevel_key cfgdict) ks)"

section \<open>\<^verbatim>\<open>configureTrigger\<close> (lines 262-311)\<close>

definition cfg_cnt :: "dict \<Rightarrow> unit action" where
  "cfg_cnt cfgdict =
     (if has_key cfgdict ''cnt'' then
        and_then (lift (getitem cfgdict ''cnt'')) (\<lambda>v.
        and_then (lift (py_int v)) (\<lambda>count.
          if count < 1 \<or> count > 1000000
          then raise (AttributeError (''Trigger Count out of limits ('' @ str_int count @ '')''))
          else drv_write (''TRIGGer:COUNt '' @ str_int count)))
      else ret ())"

definition cfg_del :: "dict \<Rightarrow> unit action" where
  "cfg_del cfgdict =
     (if has_key cfgdict ''del'' then
        and_then (lift (getitem cfgdict ''del'')) (\<lambda>v.
        and_then (lift (py_int v)) (\<lambda>delay.
          if delay < 0 \<or> delay > 3600
          then raise (AttributeError (''Trigger delay out of limits ('' @ str_int delay @ '')''))
          else drv_write (''TRIGGer:DELay '' @ fmt_f 6 (float_of_int delay))))
      else ret ())"

definition cfg_sou :: "dict \<Rightarrow> unit action" where
  "cfg_sou cfgdict =
     (if has_key cfgdict ''sou'' then
        and_then (lift (getitem cfgdict ''sou'')) (\<lambda>source.
          if source \<notin> set [''imm'', ''bus'', ''ext'']
          then raise (AttributeError (''Trigger source not valid ('' @ source @ '')''))
          else drv_write (''TRIGGer:SOURce '' @ source))
      else ret ())"

definition cfg_slo :: "dict \<Rightarrow> unit action" where
  "cfg_slo cfgdict =
     (if has_key cfgdict ''slo'' then
        and_then (lift (getitem cfgdict ''slo'')) (\<lambda>slope.
          if slope \<notin> set [''pos'', ''neg'']
          then raise (AttributeError (''Trigger slope not valid ('' @ slope @ '')''))
          else drv_write (''TRIGGer:SLOPe '' @ slope))
      else ret ())"

definition set_savedTrigCfg :: "string \<Rightarrow> unit action" where
  "set_savedTrigCfg cfgstr s = (Inr (), s\<lparr>savedTrigCfg := Some cfgstr\<rparr>)"

text \<open>The saved configuration is assigned at line 283, before any key is looked at.\<close>

definition configureTrigger :: "string \<Rightarrow> unit action" where
  "configureTrigger cfgstr =
     (let cfgdict = parseConfig cfgstr
      in block [set_savedTrigCfg cfgstr,
                cfg_cnt cfgdict, cfg_del cfgdict, cfg_sou cfgdict, cfg_slo cfgdict])"


text \<open>The engine after \<^verbatim>\<open>configureTrigger("cnt:1")\<close> has succeeded on a new engine
  whose device will answer \<open>rs\<close>; the definition follows that of the method.\<close>

definition armed :: "string list \<Rightarrow> engine" where
  "armed rs = snd (configureTrigger ''cnt:1'' (new_engine False rs))"

section \<open>\<^verbatim>\<open>freq\<close> (lines 152-232)\<close>

subsection \<open>Blocking read (lines 201-209)\<close>

text \<open>
  The body of the loop \<^verbatim>\<open>while ok & 0x1\<close>. Line 204 reads
  \<^verbatim>\<open>int(ok = self._drv.query("*ESR?"))\<close>: the query is sent, and its answer is then
  passed to \<^verbatim>\<open>int\<close> as a keyword argument named \<^verbatim>\<open>ok\<close>, which raises TypeError. The
  variable \<^verbatim>\<open>ok\<close> is never assigned again.
\<close>

definition esr_body :: "unit action" where
  "esr_body =
     seq (sleep 1)
    (and_then (drv_query ''*ESR?'') (\<lambda>r.
     raise (TypeError ''ok is an invalid keyword argument for int()'')))"

lemma esr_body_raises: "fst (esr_body s) \<noteq> Inr u"
  by (simp add: esr_body_def seq_def and_then_def sleep_def drv_query_def raise_def
           split: list.split)

function esr_wait :: "int \<Rightarrow> unit action" where
  "esr_wait ok s =
     (if odd ok then
        (case esr_body s of
           (Inl e, s') \<Rightarrow> (Inl e, s')
         | (Inr u, s') \<Rightarrow> esr_wait ok s')
      else (Inr (), s))"
  by pat_completeness auto
termination
proof (relation "{}")
  show "wf {}" by simp
next
  fix ok :: int and s :: engine and x and r :: "error + unit" and s' :: engine and u :: unit
  assume "(r, s') = esr_body s" "r = Inr u"
  then have "fst (esr_body s) = Inr u" by (metis fst_conv)
  then show "((ok, s'), (ok, s)) \<in> {}" using esr_body_raises by blast
qed

declare esr_wait.simps [simp del]

text \<open>
  After the wait, line 205 fetches the batch. Line 206 then builds the debug message
  with \<^verbatim>\<open>"%d samples:\n$s" % (samples, meas)\<close>: the format has one conversion for two
  arguments, so the \<^verbatim>\<open>%\<close> operator raises TypeError before the loop of line 208.
\<close>

definition add_sample :: "string \<Rightarrow> unit action" where
  \<comment> \<open>\<^verbatim>\<open>meas_out.addMeasures(float(m))\<close>\<close>
  "add_sample m = and_then (lift (py_float m)) (\<lambda>x. addMeasures (Sample x))"

definition read_blocking :: "int \<Rightarrow> unit action" where
  "read_blocking samples =
     and_then (drv_query ''*ESR?'') (\<lambda>r.
     and_then (lift (py_int r)) (\<lambda>ok.
     seq (esr_wait ok)
    (and_then (drv_query ''FETC?'') (\<lambda>meas.
     seq (raise (TypeError ''not all arguments converted during string formatting''))
         (for_each add_sample (split_on CHR '','' meas))))))"

subsection \<open>Streaming read (lines 211-232)\<close>

text \<open>Lines 222-225: the index \<open>k\<close> runs to the first \<^verbatim>\<open>+\<close>; indexing past the end of
  the text raises IndexError.\<close>

fun skip_header :: "string \<Rightarrow> error + string" where
  "skip_header [] = Inl (IndexError ''string index out of range'')"
| "skip_header (c # cs) = (if c = CHR ''+'' then Inr (c # cs) else skip_header cs)"

text \<open>Lines 226-228: every piece is converted and appended; \<open>readvalues\<close> counts them.\<close>

fun add_counted :: "string list \<Rightarrow> int \<Rightarrow> int action" where
  "add_counted [] readvalues = ret readvalues"
| "add_counted (m # ms) readvalues = seq (add_sample m) (add_counted ms (readvalues + 1))"

definition read_chunk :: "int action" where
  \<comment> \<open>one turn of the loop of line 217; the result is \<open>readvalues\<close>\<close>
  "read_chunk =
     and_then (drv_query (''R? '' @ str_int step)) (\<lambda>meas.
     and_then (lift (skip_header meas)) (\<lambda>meas'.
     and_then (add_counted (split_on CHR '','' meas') 0) (\<lambda>readvalues.
     seq (sleep deadtime) (ret readvalues))))"


text \<open>A turn that completes has read at least one value: \<^verbatim>\<open>split\<close> never returns
  the empty list. This is what makes the loop of line 217 terminate.\<close>

lemma split_on_not_Nil: "split_on sep t \<noteq> []"
  by (induction t) (auto split: list.split)

lemma add_counted_result:
  "add_counted ms n s = (Inr rv, s') \<Longrightarrow> rv = n + int (length ms)"
proof (induction ms arbitrary: n s)
  case Nil
  then show ?case by (simp add: ret_def)
next
  case (Cons m ms)
  from Cons.prems obtain s1 where "add_counted ms (n + 1) s1 = (Inr rv, s')"
    by (auto simp: seq_def and_then_def split: prod.splits sum.splits)
  from Cons.IH [OF this] show ?case by simp
qed

lemma read_chunk_positive:
  assumes "read_chunk s = (Inr rv, s')"
  shows "0 < rv"
proof -
  from assms obtain meas' s1 s2 where "add_counted (split_on CHR '','' meas') 0 s1 = (Inr rv, s2)"
    by (auto simp: read_chunk_def seq_def and_then_def ret_def sleep_def
             split: prod.splits sum.splits)
  from add_counted_result [OF this] have "rv = int (length (split_on CHR '','' meas'))"
    by simp
  moreover have "0 < length (split_on CHR '','' meas')"
    using split_on_not_Nil by blast
  ultimately show ?thesis by simp
qed

function stream_loop :: "int \<Rightarrow> int \<Rightarrow> unit action" where
  "stream_loop samples i s =
     (if i < samples then
        (case read_chunk s of
           (Inl e, s') \<Rightarrow> (Inl e, s')
         | (Inr readvalues, s') \<Rightarrow> stream_loop samples (i + readvalues) s')
      else (Inr (), s))"
  by pat_completeness auto
termination
proof (relation "measure (\<lambda>(samples, i, s). nat (samples - i))")
  show "wf (measure (\<lambda>(samples, i, s). nat (samples - i)))" by simp
next
  fix samples i :: int and s :: engine and x and r :: "error + int" and s' :: engine
    and rv :: int
  assume "i < samples" "(r, s') = read_chunk s" "r = Inr rv"
  then have "read_chunk s = (Inr rv, s')" by simp
  from read_chunk_positive [OF this] \<open>i < samples\<close>
  show "((samples, i + rv, s'), (samples, i, s))
          \<in> measure (\<lambda>(samples, i, s). nat (samples - i))"
    by simp
qed

declare stream_loop.simps [simp del]

definition read_streaming :: "int \<Rightarrow> unit action" where
  "read_streaming samples = seq (sleep deadtime) (stream_loop samples 0)"

subsection \<open>The method\<close>

definition set_freq_rawcfg :: "string \<Rightarrow> unit action" where
  "set_freq_rawcfg cfgstr s = (Inr (), s\<lparr>freq_rawcfg := Some cfgstr\<rparr>)"

definition get_savedTrigCfg :: "string option action" where
  "get_savedTrigCfg s = (Inr (savedTrigCfg s), s)"

definition get_savedTrigLev :: "string option action" where
  "get_savedTrigLev s = (Inr (savedTrigLev s), s)"

definition logger_Error :: "unit action" where
  \<comment> \<open>line 179, \<^verbatim>\<open>self.logger.Error(...)\<close>: looking up the attribute fails on a logger
      without it\<close>
  "logger_Error s =
     (if logger_has_Error s then (Inr (), s)
      else (Inl (AttributeError ''Logger object has no attribute Error''), s))"

text \<open>
  The dictionary is indexed with \<^verbatim>\<open>cfgdict['exp']\<close>, \<^verbatim>\<open>cfgdict['res']\<close> and
  \<^verbatim>\<open>cfgdict['sampl']\<close> in the conditions of lines 183, 184 and 188, which raises
  KeyError for an absent key; the default is taken for a key that is present with the
  empty text. \<^verbatim>\<open>configureTrigger\<close> is called at line 191 with the saved configuration,
  which is the one read at line 178: nothing in between assigns it.
\<close>

definition blocking :: "bool \<Rightarrow> int \<Rightarrow> bool" where
  \<comment> \<open>the test of line 200\<close>
  "blocking breakread samples = (\<not> breakread \<or> samples = 1)"

definition freq_configured :: "dict \<Rightarrow> string \<Rightarrow> bool \<Rightarrow> unit action" where
  \<comment> \<open>lines 183-232: what \<^verbatim>\<open>freq\<close> does once the test of line 178 has passed\<close>
  "freq_configured cfgdict trigcfg breakread =
     and_then (lift (getitem cfgdict ''exp'')) (\<lambda>e.
     let exp = (if e \<noteq> [] then e else ''DEF'') in
     and_then (lift (getitem cfgdict ''res'')) (\<lambda>r.
     let res = (if r \<noteq> [] then ''1e-'' @ r else ''DEF'') in
     and_then (lift (getitem cfgdict ''ch'')) (\<lambda>ch.
     seq (drv_write (''CONF:FREQ '' @ exp @ '','' @ res @ '',(@'' @ ch @ '')''))
    (seq (drv_write ''SAMP:COUN 1'')
    (and_then (lift (getitem cfgdict ''sampl'')) (\<lambda>sm.
     and_then (if sm \<noteq> [] then lift (py_int sm) else ret 1) (\<lambda>samples.
     seq (drv_write (''TRIG:COUN '' @ str_int samples))
    (seq (configureTrigger trigcfg)
    (seq (and_then get_savedTrigLev (\<lambda>lev.
            case lev of None \<Rightarrow> ret () | Some l \<Rightarrow> trigLevel l))
    (and_then (lift (getitem cfgdict ''ch'')) (\<lambda>ch'.
     and_then (lift (getitem cfgdict ''cou'')) (\<lambda>cou.
     seq (drv_write (''INPUT'' @ ch' @ '':COUPLING '' @ cou))
    (seq (drv_write ''SENS:FREQ:GATE:TIME .1'')
    (seq (drv_write ''INIT'')
    (if blocking breakread samples then read_blocking samples
     else read_streaming samples)))))))))))))))"

definition freq :: "string \<Rightarrow> bool \<Rightarrow> unit action" where
  "freq cfgstr breakread =
     seq (set_freq_rawcfg cfgstr)
    (let cfgdict = parseConfig cfgstr in
     and_then get_savedTrigCfg (\<lambda>saved.
     case saved of
       None \<Rightarrow>
         seq logger_Error
             (raise (PyException
                ''Please configure the trigger system before calling this method.''))
     | Some trigcfg \<Rightarrow> freq_configured cfgdict trigcfg breakread))"

section \<open>\<^verbatim>\<open>period\<close> (lines 234-260)\<close>

text \<open>The module imports \<^verbatim>\<open>re\<close> and \<^verbatim>\<open>time\<close> only, so the name \<^verbatim>\<open>logging\<close> used at
  lines 259 and 330 is unbound: evaluating it raises NameError. There is no test of the
  saved trigger configuration in this method.\<close>

definition logging_debug :: "unit action" where
  "logging_debug = raise (NameError ''name logging is not defined'')"

definition set_period_rawcfg :: "string \<Rightarrow> unit action" where
  "set_period_rawcfg cfgstr s = (Inr (), s\<lparr>period_rawcfg := Some cfgstr\<rparr>)"

definition period_key :: "string \<Rightarrow> string \<Rightarrow> unit action" where
  "period_key cfgstr k =
     and_then (lift (py_int [last k])) (\<lambda>ch.
     seq (drv_write (''CONF:PER DEF,DEF,(@'' @ str_int ch @ '')''))
    (seq (trigLevel cfgstr)
    (and_then (lift (py_int [last k])) (\<lambda>ch'.
     seq (drv_write (''INPUT'' @ str_int ch' @ '':COUPLING DC''))
    (seq (drv_write ''INIT'')
    (seq (sleep 3)
    (and_then (drv_query ''READ?'') (\<lambda>r.
     seq (py_print r)
     logging_debug))))))))"

definition period :: "string \<Rightarrow> unit action" where
  "period cfgstr =
     seq (set_period_rawcfg cfgstr)
    (let cfgdict = parseConfig cfgstr;
         ks = findall_key ''ch'' (join_with '' '' (keys cfgdict))
     in if ks = [] then raise (PyException ''No valid params passed to period'')
        else for_each (period_key cfgstr) ks)"

section \<open>\<^verbatim>\<open>timeInterval\<close> (lines 313-368)\<close>

text \<open>
  One turn of the loop of line 355. \<open>clk k\<close> is the text \<^verbatim>\<open>time.strftime\<close> gives at
  turn \<open>k\<close>. The test \<^verbatim>\<open>'tstamp' in cfgstr\<close> looks for the substring in the raw text.
\<close>

definition want_stamp :: "string \<Rightarrow> dict \<Rightarrow> bool action" where
  "want_stamp cfgstr cfgdict =
     (if contains ''tstamp'' cfgstr
      then and_then (lift (getitem cfgdict ''tstamp'')) (\<lambda>t. ret (t = ''Y''))
      else ret False)"

definition ti_read :: "(nat \<Rightarrow> string) \<Rightarrow> string \<Rightarrow> dict \<Rightarrow> nat \<Rightarrow> unit action" where
  "ti_read clk cfgstr cfgdict k =
     and_then (want_stamp cfgstr cfgdict) (\<lambda>w.
     let timest = clk k @ [CHR 0x0A] in
     and_then (drv_query ''READ?'') (\<lambda>cur.
     and_then (want_stamp cfgstr cfgdict) (\<lambda>w'.
       if w' then
         and_then (lift (py_int timest)) (\<lambda>t.
         and_then (lift (py_float cur)) (\<lambda>x. addMeasures (Stamped t x)))
       else add_sample cur)))"

text \<open>\<^verbatim>\<open>while k < samples\<close> from \<open>k = 0\<close> in steps of one: \<open>n\<close> is the number of turns
  left, \<open>nat samples\<close> at the start.\<close>

fun ti_loop :: "(nat \<Rightarrow> string) \<Rightarrow> string \<Rightarrow> dict \<Rightarrow> nat \<Rightarrow> nat \<Rightarrow> unit action" where
  "ti_loop clk cfgstr cfgdict 0 k = ret ()"
| "ti_loop clk cfgstr cfgdict (Suc n) k =
     seq (ti_read clk cfgstr cfgdict k) (ti_loop clk cfgstr cfgdict n (k + 1))"

text \<open>Lines 332-368, what follows the debug call of line 330.\<close>

definition channels :: "string \<Rightarrow> int \<times> int" where
  \<comment> \<open>line 332\<close>
  "channels ref = (if ref = ''A'' then (1, 2) else (2, 1))"

definition timeInterval_rest :: "(nat \<Rightarrow> string) \<Rightarrow> string \<Rightarrow> dict \<Rightarrow> unit action" where
  "timeInterval_rest clk cfgstr cfgdict =
     and_then (lift (getitem cfgdict ''ref'')) (\<lambda>ref.
     case channels ref of (ref_chan, other_chan) \<Rightarrow>
     and_then (lift (getitem cfgdict ''sampl'')) (\<lambda>sm.
     and_then (lift (py_int sm)) (\<lambda>samples.
     seq (drv_write (''CONFIGURE:TINTERVAL (@'' @ str_int ref_chan @ ''),(@''
                       @ str_int other_chan @ '')''))
    (and_then (lift (getitem cfgdict ''coup'')) (\<lambda>c1.
     seq (drv_write (''INPUT1:COUPLING '' @ c1))
    (and_then (lift (getitem cfgdict ''coup'')) (\<lambda>c2.
     seq (drv_write (''INPUT2:COUPLING '' @ c2))
    (and_then (lift (getitem cfgdict ''imp'')) (\<lambda>i1.
     and_then (lift (py_float i1)) (\<lambda>z1.
     seq (drv_write (''INPUT1:IMPedance '' @ fmt_f 6 z1))
    (and_then (lift (getitem cfgdict ''imp'')) (\<lambda>i2.
     and_then (lift (py_float i2)) (\<lambda>z2.
     seq (drv_write (''INPUT2:IMPedance '' @ fmt_f 6 z2))
    (seq (trigLevel cfgstr)
    (seq (drv_write ''TRIG:COUNT 1'')
    (seq (drv_write ''INIT'')
    (ti_loop clk cfgstr cfgdict (nat samples) 0)))))))))))))))))"

definition timeInterval :: "(nat \<Rightarrow> string) \<Rightarrow> string \<Rightarrow> unit action" where
  "timeInterval clk cfgstr =
     (let cfgdict = parseConfig cfgstr
      in seq logging_debug (timeInterval_rest clk cfgstr cfgdict))"


section \<open>Rules for running actions\<close>

lemma and_then_ret [simp]: "and_then (ret x) f = f x"
  by (rule ext) (simp add: and_then_def ret_def)

lemma and_then_raise [simp]: "and_then (raise e) f = raise e"
  by (rule ext) (simp add: and_then_def raise_def)

lemma seq_ret [simp]: "seq (ret ()) n = n"
  by (simp add: seq_def)

lemma seq_raise [simp]: "seq (raise e) n = raise e"
  by (simp add: seq_def)

lemma lift_Inr [simp]: "lift (Inr x) = ret x"
  by (simp add: lift_def)

lemma lift_Inl [simp]: "lift (Inl e) = raise e"
  by (simp add: lift_def)

lemma seq_apply:
  "seq m n s = (case m s of (Inl e, s') \<Rightarrow> (Inl e, s') | (Inr u, s') \<Rightarrow> n s')"
  by (simp add: seq_def and_then_def)

lemma seq_drv_write [simp]:
  "seq (drv_write c) n s = n (s\<lparr>events := events s @ [Write c]\<rparr>)"
  by (simp add: seq_apply drv_write_def)

lemma seq_sleep [simp]:
  "seq (sleep k) n s = n (s\<lparr>events := events s @ [Sleep k]\<rparr>)"
  by (simp add: seq_apply sleep_def)

lemma and_then_apply:
  "and_then m f s = (case m s of (Inl e, s') \<Rightarrow> (Inl e, s') | (Inr x, s') \<Rightarrow> f x s')"
  by (simp add: and_then_def)

lemma ret_apply: "ret x s = (Inr x, s)"
  by (simp add: ret_def)

lemma raise_apply: "raise e s = (Inl e, s)"
  by (simp add: raise_def)

lemma drv_write_apply: "drv_write c s = (Inr (), s\<lparr>events := events s @ [Write c]\<rparr>)"
  by (simp add: drv_write_def)

lemma drv_query_apply:
  "drv_query c s =
     (case replies s of
        [] \<Rightarrow> (Inl DeviceTimeout, s\<lparr>events := events s @ [Query c]\<rparr>)
      | r # rs \<Rightarrow> (Inr r, s\<lparr>events := events s @ [Query c], replies := rs\<rparr>))"
  by (simp add: drv_query_def)

lemma sleep_apply: "sleep k s = (Inr (), s\<lparr>events := events s @ [Sleep k]\<rparr>)"
  by (simp add: sleep_def)

lemma py_print_apply: "py_print t s = (Inr (), s\<lparr>events := events s @ [Print t]\<rparr>)"
  by (simp add: py_print_def)

lemma addMeasures_apply: "addMeasures m s = (Inr (), s\<lparr>sink := sink s @ [m]\<rparr>)"
  by (simp add: addMeasures_def)

lemmas run_simps =
  seq_apply and_then_apply ret_apply raise_apply drv_write_apply drv_query_apply sleep_apply
  py_print_apply addMeasures_apply

lemma fmt_f_6_int:
  assumes "0 \<le> n"
  shows "fmt_f 6 (float_of_int n) = str_int n @ ''.000000''"
proof -
  have "str_nat 0 = ''0''"
    by (simp add: str_nat.simps digit_char_def)
  moreover have "pad_zeros 6 ''0'' = ''000000''"
    by (simp add: pad_zeros_def eval_nat_numeral)
  ultimately show ?thesis
    using assms by (simp add: fmt_f_def float_of_int_def str_int_def)
qed

section \<open>\<^verbatim>\<open>configureTrigger\<close>, key by key\<close>

text \<open>
  What the four blocks of \<^verbatim>\<open>configureTrigger\<close> make of one key. The key is absent.
  Or its value is valid, with the command that sets it: for cnt an integer literal from
  1 to 1000000, sent as an integer; for del an integer literal from 0 to 3600, sent
  with six decimals; for sou one of imm, bus, ext and for slo one of pos, neg, sent as
  they are. Or its value is invalid, with the message of the \<^verbatim>\<open>AttributeError\<close>: for
  cnt and del an integer literal outside the range, for sou and slo any other text. Or
  it is malformed: a cnt or del value that is not an integer literal (\<^verbatim>\<open>0.5\<close>,
  \<^verbatim>\<open>3600.5\<close>, \<^verbatim>\<open>abc\<close>), at which \<^verbatim>\<open>int\<close> raises ValueError.
\<close>

datatype key_state = Absent | Valid string | Invalid string | Malformed

definition key_state :: "dict \<Rightarrow> string \<Rightarrow> key_state" where
  "key_state d k =
     (case map_of d k of
        None \<Rightarrow> Absent
      | Some v \<Rightarrow>
          if k = ''cnt'' then
            (case signed_digits (strip v) of
               None \<Rightarrow> Malformed
             | Some n \<Rightarrow>
                 if 1 \<le> n \<and> n \<le> 1000000 then Valid (''TRIGGer:COUNt '' @ str_int n)
                 else Invalid (''Trigger Count out of limits ('' @ str_int n @ '')''))
          else if k = ''del'' then
            (case signed_digits (strip v) of
               None \<Rightarrow> Malformed
             | Some n \<Rightarrow>
                 if 0 \<le> n \<and> n \<le> 3600
                 then Valid (''TRIGGer:DELay '' @ str_int n @ ''.000000'')
                 else Invalid (''Trigger delay out of limits ('' @ str_int n @ '')''))
          else if k = ''sou'' then
            (if v \<in> set [''imm'', ''bus'', ''ext''] then Valid (''TRIGGer:SOURce '' @ v)
             else Invalid (''Trigger source not valid ('' @ v @ '')''))
          else if k = ''slo'' then
            (if v \<in> set [''pos'', ''neg''] then Valid (''TRIGGer:SLOPe '' @ v)
             else Invalid (''Trigger slope not valid ('' @ v @ '')''))
          else Absent)"

definition trigger_keys :: "string list" where
  \<comment> \<open>the order in which the method looks at the keys\<close>
  "trigger_keys = [''cnt'', ''del'', ''sou'', ''slo'']"

definition passes :: "dict \<Rightarrow> string \<Rightarrow> bool" where
  \<comment> \<open>the key is absent or valid\<close>
  "passes d k = (case key_state d k of Absent \<Rightarrow> True | Valid c \<Rightarrow> True | _ \<Rightarrow> False)"

definition valid_cmds :: "dict \<Rightarrow> string list \<Rightarrow> string list" where
  \<comment> \<open>the commands of those of the keys \<open>ks\<close> that are valid, in order\<close>
  "valid_cmds d ks = concat (map (\<lambda>k. case key_state d k of Valid c \<Rightarrow> [c] | _ \<Rightarrow> []) ks)"

fun run_keys :: "key_state list \<Rightarrow> error option \<times> string list" where
  "run_keys [] = (None, [])"
| "run_keys (Absent # ks) = run_keys ks"
| "run_keys (Valid c # ks) = (case run_keys ks of (e, cs) \<Rightarrow> (e, c # cs))"
| "run_keys (Invalid m # ks) = (Some (AttributeError m), [])"
| "run_keys (Malformed # ks) = (Some (ValueError ''invalid literal for int()''), [])"

definition key_step :: "key_state \<Rightarrow> unit action" where
  "key_step st =
     (case st of
        Absent \<Rightarrow> ret ()
      | Valid c \<Rightarrow> drv_write c
      | Invalid m \<Rightarrow> raise (AttributeError m)
      | Malformed \<Rightarrow> raise (ValueError ''invalid literal for int()''))"

lemma cfg_cnt_key: "cfg_cnt d = key_step (key_state d ''cnt'')"
  by (auto simp: cfg_cnt_def key_step_def key_state_def has_key_def getitem_def py_int_def
           split: option.splits)

lemma cfg_del_key: "cfg_del d = key_step (key_state d ''del'')"
  by (auto simp: cfg_del_def key_step_def key_state_def has_key_def getitem_def py_int_def
                 fmt_f_6_int
           split: option.splits)

lemma cfg_sou_key: "cfg_sou d = key_step (key_state d ''sou'')"
  by (auto simp: cfg_sou_def key_step_def key_state_def has_key_def getitem_def
           split: option.splits)

lemma cfg_slo_key: "cfg_slo d = key_step (key_state d ''slo'')"
  by (auto simp: cfg_slo_def key_step_def key_state_def has_key_def getitem_def
           split: option.splits)

lemma block_key_steps:
  "block (map key_step sts) s =
     (case run_keys sts of
        (None, cs) \<Rightarrow> (Inr (), s\<lparr>events := events s @ map Write cs\<rparr>)
      | (Some e, cs) \<Rightarrow> (Inl e, s\<lparr>events := events s @ map Write cs\<rparr>))"
proof (induction sts arbitrary: s)
  case Nil
  then show ?case by (simp add: ret_def)
next
  case (Cons st sts)
  show ?case
  proof (cases st)
    case Absent
    then show ?thesis using Cons.IH by (simp add: key_step_def)
  next
    case (Valid c)
    then show ?thesis using Cons.IH
      by (simp add: key_step_def split: prod.splits option.splits)
  next
    case (Invalid m)
    then show ?thesis by (simp add: key_step_def raise_def)
  next
    case Malformed
    then show ?thesis by (simp add: key_step_def raise_def)
  qed
qed

lemma configureTrigger_keys:
  "configureTrigger cfgstr s =
     (case run_keys (map (key_state (parseConfig cfgstr)) trigger_keys) of
        (None, cs) \<Rightarrow>
          (Inr (), s\<lparr>savedTrigCfg := Some cfgstr, events := events s @ map Write cs\<rparr>)
      | (Some e, cs) \<Rightarrow>
          (Inl e, s\<lparr>savedTrigCfg := Some cfgstr, events := events s @ map Write cs\<rparr>))"
proof -
  let ?d = "parseConfig cfgstr"
  have "configureTrigger cfgstr s
          = block (map key_step (map (key_state ?d) trigger_keys))
              (s\<lparr>savedTrigCfg := Some cfgstr\<rparr>)"
    by (simp add: configureTrigger_def Let_def trigger_keys_def cfg_cnt_key cfg_del_key
                  cfg_sou_key cfg_slo_key seq_apply set_savedTrigCfg_def del: map_map)
  then show ?thesis
    unfolding block_key_steps by (simp split: prod.splits option.splits)
qed

lemma run_keys_passes:
  "\<forall>j \<in> set ks. passes d j \<Longrightarrow> run_keys (map (key_state d) ks) = (None, valid_cmds d ks)"
  by (induction ks) (auto simp: passes_def valid_cmds_def split: key_state.splits)

lemma run_keys_stop:
  assumes "\<forall>j \<in> set pre. passes d j" and "key_state d k = Invalid m"
  shows "run_keys (map (key_state d) (pre @ k # post))
           = (Some (AttributeError m), valid_cmds d pre)"
  using assms by (induction pre) (auto simp: passes_def valid_cmds_def split: key_state.splits)

lemma run_keys_stop_malformed:
  assumes "\<forall>j \<in> set pre. passes d j" and "key_state d k = Malformed"
  shows "run_keys (map (key_state d) (pre @ k # post))
           = (Some (ValueError ''invalid literal for int()''), valid_cmds d pre)"
  using assms by (induction pre) (auto simp: passes_def valid_cmds_def split: key_state.splits)

lemma takeWhile_first:
  assumes "k \<in> set ks"
  shows "\<exists>post. ks = takeWhile (\<lambda>j. j \<noteq> k) ks @ k # post"
proof -
  have "dropWhile (\<lambda>j. j \<noteq> k) ks \<noteq> []"
    using assms by (simp add: dropWhile_eq_Nil_conv)
  then obtain x post where d: "dropWhile (\<lambda>j. j \<noteq> k) ks = x # post"
    by (cases "dropWhile (\<lambda>j. j \<noteq> k) ks") auto
  then have "x = k"
    using hd_dropWhile [of "\<lambda>j. j \<noteq> k" ks] by auto
  with d have "takeWhile (\<lambda>j. j \<noteq> k) ks @ k # post = ks"
    using takeWhile_dropWhile_id [of "\<lambda>j. j \<noteq> k" ks] by simp
  then show ?thesis by metis
qed

lemma str_int_simps:
  "str_int 0 = ''0''" "str_int 1 = ''1''" "str_int 2 = ''2''" "str_int 3 = ''3''"
  "str_int 4 = ''4''" "str_int 5 = ''5''" "str_int 6 = ''6''" "str_int 7 = ''7''"
  "str_int 8 = ''8''" "str_int 9 = ''9''" "str_int 10 = ''10''" "str_int 3600 = ''3600''"
  by (simp_all add: str_int_def str_nat.simps digit_char_def)

lemma str_nat_simps:
  "str_nat 0 = ''0''" "str_nat 1 = ''1''" "str_nat (Suc 0) = ''1''" "str_nat 2 = ''2''"
  "str_nat 50 = ''50''" "str_nat 500 = ''500''"
  by (simp_all add: str_nat.simps digit_char_def)

lemma pad_zeros_simps:
  "pad_zeros 3 ''500'' = ''500''" "pad_zeros 6 ''0'' = ''000000''"
  by (simp_all add: pad_zeros_def eval_nat_numeral)

lemma rne_div_simps:
  "rne_div 5000 2 = 2500" "rne_div 3000 2 = 1500"
  by (simp_all add: rne_div_def)

lemma fmt_f_simps:
  "fmt_f 3 (Fin False 5 (- 1)) = ''2.500''"
  "fmt_f 3 (Fin False 3 (- 1)) = ''1.500''"
  "fmt_f 6 (Fin False 25 1) = ''50.000000''"
  by (simp_all add: fmt_f_def str_nat_simps pad_zeros_simps rne_div_simps)

lemmas eval_key =
  key_state_def strip_def c_space_def signed_digits_def digit_val_def nat_of_digits_def
  str_int_simps

lemmas eval_parse = parseConfig_def split_ws_def is_space_def parse_token_def

section \<open>Validation of the trigger keys\<close>

text \<open>
  C1, as the spec states it: a call of \<^verbatim>\<open>configureTrigger\<close> in which one of the keys
  cnt, del, sou, slo has an out-of-range or unrecognised value fails with
  InvalidParameter and emits no command at all. The code validates and writes key by
  key: with \<^verbatim>\<open>"cnt:5 sou:xyz"\<close> the count command has been written when the source is
  rejected.
\<close>

theorem configureTrigger_not_atomic:
  "configureTrigger ''cnt:5 sou:xyz'' (new_engine False []) =
     (Inl (AttributeError ''Trigger source not valid (xyz)''),
      (new_engine False [])\<lparr>savedTrigCfg := Some ''cnt:5 sou:xyz'',
         events := [Write ''TRIGGer:COUNt 5'']\<rparr>)"
proof -
  have "parseConfig ''cnt:5 sou:xyz'' = [(''cnt'', ''5''), (''sou'', ''xyz'')]"
    by (simp add: eval_parse)
  then show ?thesis
    by (simp add: configureTrigger_keys trigger_keys_def eval_key new_engine_def)
qed

text \<open>
  C1, amended: if the value of one of the keys cnt, del, sou, slo is invalid (for cnt an
  integer literal outside 1 to 1000000, for del an integer literal outside 0 to 3600,
  for sou a text other than imm, bus, ext, for slo a text other than pos, neg), and the
  keys looked at before it (in the order cnt, del, sou, slo) are each absent or valid
  (cnt and del: an integer literal within the range), the call fails with
  InvalidParameter (the \<^verbatim>\<open>AttributeError\<close> of that key); the commands of the valid keys
  before it have been emitted, and no command for that key or a later one. For an
  integer cnt out of range no key comes before, so the call emits nothing. Values of
  cnt and del that are not integer literals are left out of this statement: they are
  the subject of C7.
\<close>

theorem configureTrigger_invalid_key:
  assumes "k \<in> set trigger_keys"
    and "key_state (parseConfig cfgstr) k = Invalid msg"
    and "\<forall>j \<in> set (takeWhile (\<lambda>j. j \<noteq> k) trigger_keys). passes (parseConfig cfgstr) j"
  shows "configureTrigger cfgstr s =
           (Inl (AttributeError msg),
            s\<lparr>savedTrigCfg := Some cfgstr,
              events := events s @
                map Write (valid_cmds (parseConfig cfgstr)
                             (takeWhile (\<lambda>j. j \<noteq> k) trigger_keys))\<rparr>)"
proof -
  let ?d = "parseConfig cfgstr"
  let ?pre = "takeWhile (\<lambda>j. j \<noteq> k) trigger_keys"
  from takeWhile_first [OF assms(1)] obtain post where "trigger_keys = ?pre @ k # post" ..
  then have "run_keys (map (key_state ?d) trigger_keys)
               = run_keys (map (key_state ?d) (?pre @ k # post))"
    by simp
  also have "\<dots> = (Some (AttributeError msg), valid_cmds ?d ?pre)"
    using assms(3) assms(2) by (rule run_keys_stop)
  finally show ?thesis
    by (simp add: configureTrigger_keys)
qed

text \<open>The amended C1 at \<^verbatim>\<open>"cnt:7 del:10 slo:up"\<close>: the slope is rejected after the count
  and the delay have been written.\<close>

theorem configureTrigger_invalid_key_witness:
  "configureTrigger ''cnt:7 del:10 slo:up'' (new_engine False []) =
     (Inl (AttributeError ''Trigger slope not valid (up)''),
      (new_engine False [])\<lparr>savedTrigCfg := Some ''cnt:7 del:10 slo:up'',
         events := [Write ''TRIGGer:COUNt 7'', Write ''TRIGGer:DELay 10.000000'']\<rparr>)"
proof -
  let ?d = "parseConfig ''cnt:7 del:10 slo:up''"
  have d: "?d = [(''cnt'', ''7''), (''del'', ''10''), (''slo'', ''up'')]"
    by (simp add: eval_parse)
  have k: "''slo'' \<in> set trigger_keys"
    by (simp add: trigger_keys_def)
  have tw: "takeWhile (\<lambda>j. j \<noteq> ''slo'') trigger_keys = [''cnt'', ''del'', ''sou'']"
    by (simp add: trigger_keys_def)
  have st: "key_state ?d ''cnt'' = Valid ''TRIGGer:COUNt 7''"
    "key_state ?d ''del'' = Valid ''TRIGGer:DELay 10.000000''"
    "key_state ?d ''sou'' = Absent"
    "key_state ?d ''slo'' = Invalid ''Trigger slope not valid (up)''"
    by (simp_all add: d eval_key)
  have p: "\<forall>j \<in> set (takeWhile (\<lambda>j. j \<noteq> ''slo'') trigger_keys). passes ?d j"
    by (simp add: tw passes_def st)
  show ?thesis
    using configureTrigger_invalid_key [OF k st(4) p, of "new_engine False []"]
    by (simp add: tw valid_cmds_def st new_engine_def)
qed

text \<open>A cnt or del value that is not an integer literal ends the call in the same way,
  with the ValueError of \<^verbatim>\<open>int\<close> in place of InvalidParameter, whatever the keys after it
  hold: \<^verbatim>\<open>"del:3600.5"\<close> and \<^verbatim>\<open>"del:0.5 sou:xyz"\<close> both raise ValueError.\<close>

lemma configureTrigger_malformed_key:
  assumes "k \<in> set trigger_keys"
    and "key_state (parseConfig cfgstr) k = Malformed"
    and "\<forall>j \<in> set (takeWhile (\<lambda>j. j \<noteq> k) trigger_keys). passes (parseConfig cfgstr) j"
  shows "configureTrigger cfgstr s =
           (Inl (ValueError ''invalid literal for int()''),
            s\<lparr>savedTrigCfg := Some cfgstr,
              events := events s @
                map Write (valid_cmds (parseConfig cfgstr)
                             (takeWhile (\<lambda>j. j \<noteq> k) trigger_keys))\<rparr>)"
proof -
  let ?d = "parseConfig cfgstr"
  let ?pre = "takeWhile (\<lambda>j. j \<noteq> k) trigger_keys"
  from takeWhile_first [OF assms(1)] obtain post where "trigger_keys = ?pre @ k # post" ..
  then have "run_keys (map (key_state ?d) trigger_keys)
               = run_keys (map (key_state ?d) (?pre @ k # post))"
    by simp
  also have "\<dots> = (Some (ValueError ''invalid literal for int()''), valid_cmds ?d ?pre)"
    using assms(3) assms(2) by (rule run_keys_stop_malformed)
  finally show ?thesis
    by (simp add: configureTrigger_keys)
qed

lemma configureTrigger_malformed_examples:
  "configureTrigger ''del:3600.5'' (new_engine False []) =
     (Inl (ValueError ''invalid literal for int()''),
      (new_engine False [])\<lparr>savedTrigCfg := Some ''del:3600.5''\<rparr>)"
  "configureTrigger ''del:0.5 sou:xyz'' (new_engine False []) =
     (Inl (ValueError ''invalid literal for int()''),
      (new_engine False [])\<lparr>savedTrigCfg := Some ''del:0.5 sou:xyz''\<rparr>)"
proof -
  have "parseConfig ''del:3600.5'' = [(''del'', ''3600.5'')]"
    by (simp add: eval_parse)
  then show "configureTrigger ''del:3600.5'' (new_engine False []) =
     (Inl (ValueError ''invalid literal for int()''),
      (new_engine False [])\<lparr>savedTrigCfg := Some ''del:3600.5''\<rparr>)"
    by (simp add: configureTrigger_keys trigger_keys_def eval_key new_engine_def)
  have "parseConfig ''del:0.5 sou:xyz'' = [(''del'', ''0.5''), (''sou'', ''xyz'')]"
    by (simp add: eval_parse)
  then show "configureTrigger ''del:0.5 sou:xyz'' (new_engine False []) =
     (Inl (ValueError ''invalid literal for int()''),
      (new_engine False [])\<lparr>savedTrigCfg := Some ''del:0.5 sou:xyz''\<rparr>)"
    by (simp add: configureTrigger_keys trigger_keys_def eval_key new_engine_def)
qed

text \<open>The count is the first key looked at: out of range, it fails the call before any
  command, as the spec says of it.\<close>

lemma configureTrigger_bad_count:
  assumes "getitem (parseConfig cfgstr) ''cnt'' = Inr v"
    and "py_int v = Inr n"
    and "n < 1 \<or> 1000000 < n"
  shows "configureTrigger cfgstr s =
           (Inl (AttributeError (''Trigger Count out of limits ('' @ str_int n @ '')'')),
            s\<lparr>savedTrigCfg := Some cfgstr\<rparr>)"
proof -
  have "key_state (parseConfig cfgstr) ''cnt''
          = Invalid (''Trigger Count out of limits ('' @ str_int n @ '')'')"
    using assms by (auto simp: key_state_def getitem_def py_int_def split: option.splits)
  then show ?thesis
    by (simp add: configureTrigger_keys trigger_keys_def)
qed

section \<open>The trigger delay\<close>

text \<open>
  C7: a \<^verbatim>\<open>del\<close> value that is a real number in [0, 3600], such as 0.5, is accepted, and a
  trigger-delay command with six decimals is emitted. The code converts the value with
  \<^verbatim>\<open>int\<close> (line 292), which raises ValueError on \<^verbatim>\<open>"0.5"\<close>: the call fails
  before any command, although the docstring promises a microsecond resolution and
  line 296 formats the delay with \<^verbatim>\<open>%.6f\<close>.
\<close>

theorem configureTrigger_fractional_delay:
  "configureTrigger ''del:0.5'' (new_engine False []) =
     (Inl (ValueError ''invalid literal for int()''),
      (new_engine False [])\<lparr>savedTrigCfg := Some ''del:0.5''\<rparr>)"
proof -
  have "parseConfig ''del:0.5'' = [(''del'', ''0.5'')]"
    by (simp add: eval_parse)
  then show ?thesis
    by (simp add: configureTrigger_keys trigger_keys_def eval_key new_engine_def)
qed

text \<open>What the code does for a delay that is an integer literal in [0, 3600], the other
  keys being absent or valid: the call succeeds and the delay is sent with six
  decimals, all of them zero.\<close>

lemma configureTrigger_integer_delay:
  assumes "getitem (parseConfig cfgstr) ''del'' = Inr v"
    and "py_int v = Inr n"
    and "0 \<le> n" and "n \<le> 3600"
    and "\<forall>j \<in> set [''cnt'', ''sou'', ''slo'']. passes (parseConfig cfgstr) j"
  shows "configureTrigger cfgstr s =
           (Inr (),
            s\<lparr>savedTrigCfg := Some cfgstr,
              events := events s @
                map Write (valid_cmds (parseConfig cfgstr) [''cnt'']
                           @ [''TRIGGer:DELay '' @ str_int n @ ''.000000'']
                           @ valid_cmds (parseConfig cfgstr) [''sou'', ''slo''])\<rparr>)"
proof -
  let ?d = "parseConfig cfgstr"
  have del: "key_state ?d ''del'' = Valid (''TRIGGer:DELay '' @ str_int n @ ''.000000'')"
    using assms(1-4)
    by (auto simp: key_state_def getitem_def py_int_def split: option.splits)
  then have "\<forall>j \<in> set trigger_keys. passes ?d j"
    using assms(5) by (simp add: trigger_keys_def passes_def)
  then have "run_keys (map (key_state ?d) trigger_keys) = (None, valid_cmds ?d trigger_keys)"
    by (rule run_keys_passes)
  moreover have "valid_cmds ?d trigger_keys
                   = valid_cmds ?d [''cnt''] @ [''TRIGGer:DELay '' @ str_int n @ ''.000000'']
                     @ valid_cmds ?d [''sou'', ''slo'']"
    by (simp add: valid_cmds_def trigger_keys_def del)
  ultimately show ?thesis
    by (simp add: configureTrigger_keys)
qed

lemma configureTrigger_integer_delay_example:
  "configureTrigger ''cnt:3 del:3600 sou:ext'' (new_engine False []) =
     (Inr (),
      (new_engine False [])\<lparr>savedTrigCfg := Some ''cnt:3 del:3600 sou:ext'',
         events := [Write ''TRIGGer:COUNt 3'', Write ''TRIGGer:DELay 3600.000000'',
                    Write ''TRIGGer:SOURce ext'']\<rparr>)"
proof -
  let ?d = "parseConfig ''cnt:3 del:3600 sou:ext''"
  have d: "?d = [(''cnt'', ''3''), (''del'', ''3600''), (''sou'', ''ext'')]"
    by (simp add: eval_parse)
  have g: "getitem ?d ''del'' = Inr ''3600''"
    by (simp add: d getitem_def)
  have i: "py_int ''3600'' = Inr 3600"
    by (simp add: py_int_def eval_key)
  have st: "key_state ?d ''cnt'' = Valid ''TRIGGer:COUNt 3''"
    "key_state ?d ''sou'' = Valid ''TRIGGer:SOURce ext''"
    "key_state ?d ''slo'' = Absent"
    by (simp_all add: d eval_key)
  have p: "\<forall>j \<in> set [''cnt'', ''sou'', ''slo'']. passes ?d j"
    by (simp add: passes_def st)
  show ?thesis
    using configureTrigger_integer_delay [OF g i _ _ p, of "new_engine False []"]
    by (simp add: valid_cmds_def st new_engine_def str_int_simps)
qed

section \<open>The saved trigger configuration\<close>

lemma configureTrigger_fails:
  assumes "configureTrigger trigcfg s0 = (Inl e, s1)"
  shows "\<exists>cs. run_keys (map (key_state (parseConfig trigcfg)) trigger_keys) = (Some e, cs)
              \<and> s1 = s0\<lparr>savedTrigCfg := Some trigcfg, events := events s0 @ map Write cs\<rparr>"
  using assms unfolding configureTrigger_keys
  by (auto split: prod.splits option.splits)

lemma freq_passes_check:
  assumes "savedTrigCfg s = Some trigcfg"
  shows "freq cfgstr breakread s
           = freq_configured (parseConfig cfgstr) trigcfg breakread (s\<lparr>freq_rawcfg := Some cfgstr\<rparr>)"
  using assms
  by (simp add: freq_def seq_apply set_freq_rawcfg_def and_then_def get_savedTrigCfg_def)

text \<open>
  C10: \<^verbatim>\<open>configureTrigger\<close> stores the raw text as the saved configuration before it
  looks at any key, so a call that fails leaves that text saved. Every later call of
  \<^verbatim>\<open>freq\<close> then passes the test of line 178 and goes on with lines 183-232 under that
  configuration; a call whose own parameters resolve (the keys exp, res, ch and sampl
  are present and sampl is empty or an integer) reaches line 191, applies the saved text
  again and fails with the same error, after the same commands.
\<close>

theorem failed_trigger_config_is_kept:
  assumes "configureTrigger trigcfg s0 = (Inl e, s1)"
    and "getitem (parseConfig cfgstr) ''exp'' = Inr ex"
    and "getitem (parseConfig cfgstr) ''res'' = Inr rs"
    and "getitem (parseConfig cfgstr) ''ch'' = Inr ch"
    and "getitem (parseConfig cfgstr) ''sampl'' = Inr sm"
    and "(if sm \<noteq> [] then py_int sm else Inr 1) = Inr n"
  shows "savedTrigCfg s1 = Some trigcfg
       \<and> (\<forall>c b. freq c b s1
                  = freq_configured (parseConfig c) trigcfg b (s1\<lparr>freq_rawcfg := Some c\<rparr>))
       \<and> freq cfgstr breakread s1 =
           (Inl e,
            s1\<lparr>freq_rawcfg := Some cfgstr,
               events := events s1
                 @ [Write (''CONF:FREQ '' @ (if ex \<noteq> [] then ex else ''DEF'') @ '',''
                           @ (if rs \<noteq> [] then ''1e-'' @ rs else ''DEF'') @ '',(@'' @ ch @ '')''),
                    Write ''SAMP:COUN 1'',
                    Write (''TRIG:COUN '' @ str_int n)]
                 @ drop (length (events s0)) (events s1)\<rparr>)"
proof -
  from configureTrigger_fails [OF assms(1)] obtain cs
    where rk: "run_keys (map (key_state (parseConfig trigcfg)) trigger_keys) = (Some e, cs)"
      and s1: "s1 = s0\<lparr>savedTrigCfg := Some trigcfg, events := events s0 @ map Write cs\<rparr>"
    by blast
  have saved: "savedTrigCfg s1 = Some trigcfg"
    by (simp add: s1)
  have again: "configureTrigger trigcfg t
                 = (Inl e, t\<lparr>savedTrigCfg := Some trigcfg, events := events t @ map Write cs\<rparr>)"
    for t
    by (simp add: configureTrigger_keys rk)
  have sm: "(if sm \<noteq> [] then lift (py_int sm) else ret 1) = ret n"
    using assms(6) by (auto split: if_splits)
  have "freq cfgstr breakread s1 =
           (Inl e,
            s1\<lparr>freq_rawcfg := Some cfgstr,
               events := events s1
                 @ [Write (''CONF:FREQ '' @ (if ex \<noteq> [] then ex else ''DEF'') @ '',''
                           @ (if rs \<noteq> [] then ''1e-'' @ rs else ''DEF'') @ '',(@'' @ ch @ '')''),
                    Write ''SAMP:COUN 1'',
                    Write (''TRIG:COUN '' @ str_int n)]
                 @ map Write cs\<rparr>)"
    unfolding freq_passes_check [OF saved]
    by (simp add: freq_configured_def assms(2-5) sm Let_def seq_apply [of "configureTrigger _"]
                  again s1)
  moreover have "drop (length (events s0)) (events s1) = map Write cs"
    by (simp add: s1)
  ultimately show ?thesis
    using saved freq_passes_check [OF saved] by simp
qed

lemma parse_freq3:
  "parseConfig ''exp:10E6 res:10 ch:1 sampl:3 cou:dc''
     = [(''exp'', ''10E6''), (''res'', ''10''), (''ch'', ''1''), (''sampl'', ''3''), (''cou'', ''dc'')]"
  by (simp add: eval_parse)

text \<open>C10 at the rejected configuration \<^verbatim>\<open>"cnt:0"\<close>, followed by a streaming request
  for three samples.\<close>

theorem failed_trigger_config_is_kept_witness:
  "savedTrigCfg ((new_engine False [])\<lparr>savedTrigCfg := Some ''cnt:0''\<rparr>) = Some ''cnt:0''
   \<and> configureTrigger ''cnt:0'' (new_engine False [])
       = (Inl (AttributeError ''Trigger Count out of limits (0)''),
          (new_engine False [])\<lparr>savedTrigCfg := Some ''cnt:0''\<rparr>)
   \<and> freq ''exp:10E6 res:10 ch:1 sampl:3 cou:dc'' True
         ((new_engine False [])\<lparr>savedTrigCfg := Some ''cnt:0''\<rparr>)
       = (Inl (AttributeError ''Trigger Count out of limits (0)''),
          (new_engine False [])\<lparr>savedTrigCfg := Some ''cnt:0'',
             freq_rawcfg := Some ''exp:10E6 res:10 ch:1 sampl:3 cou:dc'',
             events := [Write ''CONF:FREQ 10E6,1e-10,(@1)'', Write ''SAMP:COUN 1'',
                        Write ''TRIG:COUN 3'']\<rparr>)"
proof -
  let ?s0 = "new_engine False []"
  let ?s1 = "?s0\<lparr>savedTrigCfg := Some ''cnt:0''\<rparr>"
  let ?d = "parseConfig ''exp:10E6 res:10 ch:1 sampl:3 cou:dc''"
  have "parseConfig ''cnt:0'' = [(''cnt'', ''0'')]"
    by (simp add: eval_parse)
  then have fail: "configureTrigger ''cnt:0'' ?s0
                = (Inl (AttributeError ''Trigger Count out of limits (0)''), ?s1)"
    by (simp add: configureTrigger_keys trigger_keys_def eval_key new_engine_def)
  have g: "getitem ?d ''exp'' = Inr ''10E6''" "getitem ?d ''res'' = Inr ''10''"
    "getitem ?d ''ch'' = Inr ''1''" "getitem ?d ''sampl'' = Inr ''3''"
    by (simp_all add: parse_freq3 getitem_def)
  have n: "(if ''3'' \<noteq> [] then py_int ''3'' else Inr 1) = Inr 3"
    by (simp add: py_int_def eval_key)
  show ?thesis
    using failed_trigger_config_is_kept [OF fail g n, of True, THEN conjunct2, THEN conjunct2]
      fail
    by (simp add: new_engine_def str_int_simps)
qed

section \<open>Evaluation of the methods on given texts\<close>

lemmas eval_float =
  py_float_def float_body_def strip_def c_space_def lower_def opt_digits_def digit_val_def
  nat_of_digits_def signed_digits_def to_double_def floor_log2_def rne_div_def
  bitlen.simps reduce2.simps

lemma py_int_simps:
  "py_int ''0'' = Inr 0" "py_int ''1'' = Inr 1" "py_int ''2'' = Inr 2" "py_int ''3'' = Inr 3"
  by (simp_all add: py_int_def eval_key)

lemma armed_eq:
  "armed rs = (new_engine False rs)\<lparr>savedTrigCfg := Some ''cnt:1'',
                 events := [Write ''TRIGGer:COUNt 1'']\<rparr>"
proof -
  have "parseConfig ''cnt:1'' = [(''cnt'', ''1'')]"
    by (simp add: eval_parse)
  then show ?thesis
    by (simp add: armed_def configureTrigger_keys trigger_keys_def eval_key new_engine_def)
qed

lemma configureTrigger_cnt1:
  "configureTrigger ''cnt:1'' s =
     (Inr (), s\<lparr>savedTrigCfg := Some ''cnt:1'',
                 events := events s @ [Write ''TRIGGer:COUNt 1'']\<rparr>)"
proof -
  have "parseConfig ''cnt:1'' = [(''cnt'', ''1'')]"
    by (simp add: eval_parse)
  then show ?thesis
    by (simp add: configureTrigger_keys trigger_keys_def eval_key)
qed

text \<open>A request whose parameters resolve, on an engine whose saved trigger configuration
  is valid and which has no saved trigger level: the commands of lines 185-198, then
  one of the two read strategies with the sample count of the request.\<close>

lemma freq_setup:
  assumes "savedTrigCfg s = Some trigcfg" and "savedTrigLev s = None"
    and "getitem (parseConfig cfgstr) ''exp'' = Inr ex"
    and "getitem (parseConfig cfgstr) ''res'' = Inr rs"
    and "getitem (parseConfig cfgstr) ''ch'' = Inr ch"
    and "getitem (parseConfig cfgstr) ''sampl'' = Inr sm"
    and "getitem (parseConfig cfgstr) ''cou'' = Inr cou"
    and "(if sm \<noteq> [] then py_int sm else Inr 1) = Inr n"
    and "\<forall>j \<in> set trigger_keys. passes (parseConfig trigcfg) j"
  shows "freq cfgstr breakread s =
           (if blocking breakread n then read_blocking n else read_streaming n)
             (s\<lparr>freq_rawcfg := Some cfgstr,
                events := events s
                  @ [Write (''CONF:FREQ '' @ (if ex \<noteq> [] then ex else ''DEF'') @ '',''
                            @ (if rs \<noteq> [] then ''1e-'' @ rs else ''DEF'') @ '',(@'' @ ch @ '')''),
                     Write ''SAMP:COUN 1'',
                     Write (''TRIG:COUN '' @ str_int n)]
                  @ map Write (valid_cmds (parseConfig trigcfg) trigger_keys)
                  @ [Write (''INPUT'' @ ch @ '':COUPLING '' @ cou),
                     Write ''SENS:FREQ:GATE:TIME .1'',
                     Write ''INIT'']\<rparr>)"
proof -
  have ct: "configureTrigger trigcfg t =
              (Inr (), t\<lparr>events := events t
                            @ map Write (valid_cmds (parseConfig trigcfg) trigger_keys)\<rparr>)"
    if "savedTrigCfg t = Some trigcfg" for t
  proof -
    have "t\<lparr>savedTrigCfg := Some trigcfg\<rparr> = t"
      using that by (cases t) simp
    then show ?thesis
      by (simp add: configureTrigger_keys run_keys_passes [OF assms(9)])
  qed
  have sm: "(if sm \<noteq> [] then lift (py_int sm) else ret 1) = ret n"
    using assms(8) by (auto split: if_splits)
  show ?thesis
    unfolding freq_passes_check [OF assms(1)]
    by (simp add: freq_configured_def assms(1-7) sm Let_def ct get_savedTrigLev_def run_simps)
qed

text \<open>A request for three samples on an armed engine: the commands of lines 185-198,
  then one of the two read strategies.\<close>

lemma freq_setup3:
  "freq ''exp:10E6 res:10 ch:1 sampl:3 cou:dc'' br (armed rs) =
     (if blocking br 3 then read_blocking 3 else read_streaming 3)
       ((armed rs)\<lparr>freq_rawcfg := Some ''exp:10E6 res:10 ch:1 sampl:3 cou:dc'',
          events := [Write ''TRIGGer:COUNt 1'',
                     Write ''CONF:FREQ 10E6,1e-10,(@1)'', Write ''SAMP:COUN 1'',
                     Write ''TRIG:COUN 3'', Write ''TRIGGer:COUNt 1'',
                     Write ''INPUT1:COUPLING dc'', Write ''SENS:FREQ:GATE:TIME .1'',
                     Write ''INIT'']\<rparr>)"
  by (simp add: freq_passes_check armed_eq new_engine_def freq_configured_def parse_freq3
                getitem_def py_int_simps str_int_simps configureTrigger_cnt1
                get_savedTrigLev_def run_simps)

section \<open>The trigger level\<close>

lemma float_a50: "py_float ''a50'' = Inl (ValueError ''could not convert string to float'')"
  by (simp add: eval_float)

lemma float_2_5: "py_float ''2.5'' = Inr (Fin False 5 (- 1))"
  by (simp add: eval_float)

lemma fmt_2_5: "fmt_f 3 (Fin False 5 (- 1)) = ''2.500''"
  by (rule fmt_f_simps)

lemma parse_trig_auto:
  "parseConfig ''trig1:a50 trig2:2.5'' = [(''trig1'', ''a50''), (''trig2'', ''2.5'')]"
  by (simp add: eval_parse)

lemma findall_trig12:
  "findall_key ''trig'' ''trig1 trig2'' = [''trig1'', ''trig2'']"
  by (simp add: findall_key_def is_digit_def digit_val_def)

text \<open>
  C4: \<^verbatim>\<open>trigLevel("trig1:a50 trig2:2.5")\<close> takes channel 1 as auto at 50 percent and
  channel 2 as manual at 2.5 V, and completes after an auto-off and a level command for
  each channel. In the code the call raises ValueError in the auto branch of channel 1
  (the format string of line 141 is incomplete) and sends nothing, whatever the state.
  Past that line, \<^verbatim>\<open>float("a50")\<close> at line 148 would raise as well (\<open>float_a50\<close>).
\<close>

theorem trigLevel_auto_raises:
  "trigLevel ''trig1:a50 trig2:2.5'' s = (Inl (ValueError ''incomplete format''), s)"
  by (simp add: trigLevel_def parse_trig_auto keys_def findall_trig12 trigLevel_key_def
                getitem_def run_simps)

text \<open>The manual branch alone works as the spec says.\<close>

lemma trigLevel_manual:
  "trigLevel ''trig2:2.5'' s =
     (Inr (), s\<lparr>events := events s @ [Write ''INPUT2:LEVEL:AUTO OFF'',
                                         Write ''INPUT2:LEVEL 2.500'']\<rparr>)"
proof -
  have "parseConfig ''trig2:2.5'' = [(''trig2'', ''2.5'')]"
    by (simp add: eval_parse)
  moreover have "findall_key ''trig'' ''trig2'' = [''trig2'']"
    by (simp add: findall_key_def is_digit_def digit_val_def)
  ultimately show ?thesis
    by (simp add: trigLevel_def keys_def trigLevel_key_def getitem_def float_2_5 fmt_2_5
                  py_int_simps str_int_simps run_simps)
qed

section \<open>The precondition on the trigger\<close>

text \<open>
  C2, as the spec states it: \<^verbatim>\<open>freq\<close>, \<^verbatim>\<open>period\<close> and \<^verbatim>\<open>timeInterval\<close> each fail with
  TriggerNotConfigured, and emit no command, while no trigger configuration is saved.
  \<^verbatim>\<open>period\<close> has no such test: on a new engine it configures the channel, sets the
  trigger level, arms and reads (and then stops at the unbound name of line 259).
\<close>

theorem period_without_trigger:
  "savedTrigCfg (new_engine False [''+1.0E-8'']) = None
   \<and> period ''ch1:1 trig1:1.5'' (new_engine False [''+1.0E-8'']) =
       (Inl (NameError ''name logging is not defined''),
        (new_engine False [''+1.0E-8''])\<lparr>period_rawcfg := Some ''ch1:1 trig1:1.5'',
           events := [Write ''CONF:PER DEF,DEF,(@1)'', Write ''INPUT1:LEVEL:AUTO OFF'',
                      Write ''INPUT1:LEVEL 1.500'', Write ''INPUT1:COUPLING DC'',
                      Write ''INIT'', Sleep 3, Query ''READ?'', Print ''+1.0E-8''],
           replies := []\<rparr>)"
proof -
  have p: "parseConfig ''ch1:1 trig1:1.5'' = [(''ch1'', ''1''), (''trig1'', ''1.5'')]"
    by (simp add: eval_parse)
  have f: "findall_key ''ch'' ''ch1 trig1'' = [''ch1'']"
    "findall_key ''trig'' ''ch1 trig1'' = [''trig1'']"
    by (simp_all add: findall_key_def is_digit_def digit_val_def)
  have x: "py_float ''1.5'' = Inr (Fin False 3 (- 1))"
    by (simp add: eval_float)
  have m: "fmt_f 3 (Fin False 3 (- 1)) = ''1.500''"
    by (rule fmt_f_simps)
  have t: "trigLevel ''ch1:1 trig1:1.5'' s =
             (Inr (), s\<lparr>events := events s @ [Write ''INPUT1:LEVEL:AUTO OFF'',
                                                 Write ''INPUT1:LEVEL 1.500'']\<rparr>)" for s
    by (simp add: trigLevel_def p keys_def f trigLevel_key_def getitem_def x m py_int_simps
                  str_int_simps run_simps)
  show ?thesis
    by (simp add: period_def set_period_rawcfg_def p keys_def f period_key_def py_int_simps
                  str_int_simps t logging_debug_def new_engine_def run_simps)
qed

text \<open>
  C2, amended: \<^verbatim>\<open>freq\<close>, called while no trigger configuration is saved, fails and emits
  no command (the state changes only in the raw text the method keeps). The error is
  TriggerNotConfigured, the \<^verbatim>\<open>Exception\<close> of line 180, when the logger has the method
  that line 179 calls; \<^verbatim>\<open>period\<close> and \<^verbatim>\<open>timeInterval\<close> do not test the saved
  configuration.
\<close>

theorem freq_requires_trigger:
  assumes "savedTrigCfg s = None"
  shows "freq cfgstr breakread s =
           (Inl (if logger_has_Error s
                 then PyException
                        ''Please configure the trigger system before calling this method.''
                 else AttributeError ''Logger object has no attribute Error''),
            s\<lparr>freq_rawcfg := Some cfgstr\<rparr>)"
  using assms
  by (simp add: freq_def set_freq_rawcfg_def get_savedTrigCfg_def logger_Error_def run_simps)

text \<open>The amended C2 on a new engine whose logger has the method.\<close>

theorem freq_requires_trigger_witness:
  "savedTrigCfg (new_engine True [''0'']) = None
   \<and> freq ''exp:10E6 res:10 ch:1 sampl:3 cou:dc'' False (new_engine True [''0'']) =
       (Inl (PyException ''Please configure the trigger system before calling this method.''),
        (new_engine True [''0''])\<lparr>freq_rawcfg :=
           Some ''exp:10E6 res:10 ch:1 sampl:3 cou:dc''\<rparr>)"
proof -
  have n: "savedTrigCfg (new_engine True [''0'']) = None"
    by (simp add: new_engine_def)
  show ?thesis
    using freq_requires_trigger [OF n, of "''exp:10E6 res:10 ch:1 sampl:3 cou:dc''" False]
    by (simp add: new_engine_def)
qed

section \<open>The optional keys of \<^verbatim>\<open>freq\<close>\<close>

text \<open>
  C5: a \<^verbatim>\<open>freq\<close> call whose text leaves out exp, res or sampl resolves its parameters
  with the defaults DEF, DEF and 1. The docstring marks the three keys as optional, and
  lines 183, 184 and 188 name the defaults, but their conditions index the dictionary:
  on an armed engine, \<^verbatim>\<open>freq("ch:1 cou:dc", ...)\<close> raises KeyError for \<^verbatim>\<open>exp\<close> before
  any command.
\<close>

theorem freq_missing_optional_keys:
  "freq ''ch:1 cou:dc'' False (armed []) =
     (Inl (KeyError ''exp''), (armed [])\<lparr>freq_rawcfg := Some ''ch:1 cou:dc''\<rparr>)"
proof -
  have "parseConfig ''ch:1 cou:dc'' = [(''ch'', ''1''), (''cou'', ''dc'')]"
    by (simp add: eval_parse)
  then show ?thesis
    by (simp add: freq_passes_check armed_eq new_engine_def freq_configured_def getitem_def
                  run_simps)
qed

text \<open>The defaults are taken only for keys that are present with an empty value.\<close>

lemma freq_empty_optional_keys:
  "freq ''exp: res: ch:1 sampl: cou:dc'' True (armed []) =
     (Inl DeviceTimeout,
      (armed [])\<lparr>freq_rawcfg := Some ''exp: res: ch:1 sampl: cou:dc'',
         events := [Write ''TRIGGer:COUNt 1'',
                    Write ''CONF:FREQ DEF,DEF,(@1)'', Write ''SAMP:COUN 1'',
                    Write ''TRIG:COUN 1'', Write ''TRIGGer:COUNt 1'',
                    Write ''INPUT1:COUPLING dc'', Write ''SENS:FREQ:GATE:TIME .1'',
                    Write ''INIT'', Query ''*ESR?'']\<rparr>)"
proof -
  have "parseConfig ''exp: res: ch:1 sampl: cou:dc''
          = [(''exp'', ''''), (''res'', ''''), (''ch'', ''1''), (''sampl'', ''''), (''cou'', ''dc'')]"
    by (simp add: eval_parse)
  then show ?thesis
    by (simp add: freq_passes_check armed_eq new_engine_def freq_configured_def getitem_def
                  str_int_simps configureTrigger_cnt1 get_savedTrigLev_def blocking_def
                  read_blocking_def run_simps)
qed

section \<open>The blocking read\<close>

text \<open>
  C6: in the blocking strategy the status register is polled, with a sleep of one second
  between polls, until the bit is clear, however many polls that takes; then one fetch
  is issued and every value of the answer is appended. In the code a second poll never
  completes: with the bit set in the first answer, the call sleeps, sends the second
  query and raises TypeError at line 204, with no fetch and nothing appended.
\<close>

theorem freq_blocking_second_poll:
  "freq ''exp:10E6 res:10 ch:1 sampl:3 cou:dc'' False (armed [''1'', ''0'', ''+1.0,+2.0,+3.0'']) =
     (Inl (TypeError ''ok is an invalid keyword argument for int()''),
      (armed [''+1.0,+2.0,+3.0''])\<lparr>freq_rawcfg := Some ''exp:10E6 res:10 ch:1 sampl:3 cou:dc'',
         events := [Write ''TRIGGer:COUNt 1'',
                    Write ''CONF:FREQ 10E6,1e-10,(@1)'', Write ''SAMP:COUN 1'',
                    Write ''TRIG:COUN 3'', Write ''TRIGGer:COUNt 1'',
                    Write ''INPUT1:COUPLING dc'', Write ''SENS:FREQ:GATE:TIME .1'',
                    Write ''INIT'', Query ''*ESR?'', Sleep 1, Query ''*ESR?'']\<rparr>)"
  unfolding freq_setup3
  by (simp add: blocking_def read_blocking_def py_int_simps esr_wait.simps
                esr_body_def armed_eq new_engine_def run_simps)

text \<open>With the bit clear in the first answer the fetch is issued, and the call raises
  TypeError at line 206, before the answer is split.\<close>

lemma freq_blocking_first_poll:
  "freq ''exp:10E6 res:10 ch:1 sampl:3 cou:dc'' False (armed [''0'', ''+1.0,+2.0,+3.0'']) =
     (Inl (TypeError ''not all arguments converted during string formatting''),
      (armed [])\<lparr>freq_rawcfg := Some ''exp:10E6 res:10 ch:1 sampl:3 cou:dc'',
         events := [Write ''TRIGGer:COUNt 1'',
                    Write ''CONF:FREQ 10E6,1e-10,(@1)'', Write ''SAMP:COUN 1'',
                    Write ''TRIG:COUN 3'', Write ''TRIGGer:COUNt 1'',
                    Write ''INPUT1:COUPLING dc'', Write ''SENS:FREQ:GATE:TIME .1'',
                    Write ''INIT'', Query ''*ESR?'', Query ''FETC?'']\<rparr>)"
  unfolding freq_setup3
  by (simp add: blocking_def read_blocking_def py_int_simps esr_wait.simps
                esr_body_def armed_eq new_engine_def run_simps)

text \<open>Whatever the device answers, the blocking read ends in an error and appends
  nothing.\<close>

lemma esr_wait_sink: "sink (snd (esr_wait ok s)) = sink s"
  by (simp add: esr_wait.simps esr_body_def run_simps split: list.split)

lemma read_blocking_appends_nothing:
  "fst (read_blocking n s) \<noteq> Inr () \<and> sink (snd (read_blocking n s)) = sink s"
proof (cases "replies s")
  case Nil
  then show ?thesis by (simp add: read_blocking_def run_simps)
next
  case (Cons r rs)
  let ?s1 = "s\<lparr>events := events s @ [Query ''*ESR?''], replies := rs\<rparr>"
  show ?thesis
  proof (cases "py_int r")
    case (Inl e)
    with Cons show ?thesis by (simp add: read_blocking_def run_simps)
  next
    case (Inr ok)
    obtain w s2 where w: "esr_wait ok ?s1 = (w, s2)" by (cases "esr_wait ok ?s1")
    have s2: "sink s2 = sink s" using esr_wait_sink [of ok ?s1] w by simp
    show ?thesis
      using Cons Inr w s2
      by (cases w) (simp_all add: read_blocking_def run_simps split: list.split)
  qed
qed

section \<open>The channels of \<^verbatim>\<open>timeInterval\<close>\<close>

text \<open>
  C8: \<^verbatim>\<open>timeInterval\<close> emits its configuration command with reference channel 1 and
  other channel 2 when \<^verbatim>\<open>ref\<close> is \<^verbatim>\<open>A\<close>, and with 2 and 1 otherwise. In the code every
  call ends at line 330, where the unbound name \<^verbatim>\<open>logging\<close> raises NameError before the
  first command: no configuration command is emitted for any text and any state.
\<close>

theorem timeInterval_raises:
  "timeInterval clk cfgstr s = (Inl (NameError ''name logging is not defined''), s)"
  by (simp add: timeInterval_def logging_debug_def run_simps)

text \<open>The lines after it, run on their own, assign the channels as the spec says: with
  \<^verbatim>\<open>ref:A\<close> the command names channel 1, then channel 2.\<close>

lemma timeInterval_rest_A:
  "timeInterval_rest clk ''ref:A sampl:1 coup:dc imp:50 trig1:1.5''
       (parseConfig ''ref:A sampl:1 coup:dc imp:50 trig1:1.5'') (new_engine False [''+2.5'']) =
     (Inr (),
      (new_engine False [])\<lparr>
         events := [Write ''CONFIGURE:TINTERVAL (@1),(@2)'',
                    Write ''INPUT1:COUPLING dc'', Write ''INPUT2:COUPLING dc'',
                    Write ''INPUT1:IMPedance 50.000000'', Write ''INPUT2:IMPedance 50.000000'',
                    Write ''INPUT1:LEVEL:AUTO OFF'', Write ''INPUT1:LEVEL 1.500'',
                    Write ''TRIG:COUNT 1'', Write ''INIT'', Query ''READ?''],
         sink := [Sample (Fin False 5 (- 1))]\<rparr>)"
proof -
  have p: "parseConfig ''ref:A sampl:1 coup:dc imp:50 trig1:1.5''
             = [(''ref'', ''A''), (''sampl'', ''1''), (''coup'', ''dc''), (''imp'', ''50''),
                (''trig1'', ''1.5'')]"
    by (simp add: eval_parse)
  have f: "findall_key ''trig'' ''ref sampl coup imp trig1'' = [''trig1'']"
    by (simp add: findall_key_def is_digit_def digit_val_def)
  have x: "py_float ''1.5'' = Inr (Fin False 3 (- 1))" "py_float ''50'' = Inr (Fin False 25 1)"
    "py_float ''+2.5'' = Inr (Fin False 5 (- 1))"
    by (simp_all add: eval_float)
  have m6: "fmt_f 6 (Fin False 25 1) = ''50.000000''"
    by (rule fmt_f_simps)
  have m: "fmt_f 3 (Fin False 3 (- 1)) = ''1.500''"
    by (rule fmt_f_simps)
  have t: "trigLevel ''ref:A sampl:1 coup:dc imp:50 trig1:1.5'' s =
             (Inr (), s\<lparr>events := events s @ [Write ''INPUT1:LEVEL:AUTO OFF'',
                                                 Write ''INPUT1:LEVEL 1.500'']\<rparr>)" for s
    by (simp add: trigLevel_def p keys_def f trigLevel_key_def getitem_def x m py_int_simps
                  str_int_simps run_simps)
  have w: "want_stamp ''ref:A sampl:1 coup:dc imp:50 trig1:1.5'' d = ret False" for d
    by (simp add: want_stamp_def)
  show ?thesis
    by (simp add: timeInterval_rest_def p getitem_def channels_def py_int_simps str_int_simps
                  x m m6 t w ti_read_def add_sample_def new_engine_def run_simps)
qed

section \<open>The streaming read\<close>

text \<open>
  Vocabulary for the answers of the device to the partial-read command. \<open>chunk_values r\<close>
  is what lines 222-227 make of the answer \<open>r\<close>: the values of its pieces after the
  header, or the error of the first step that fails. \<open>tokens r\<close> are the pieces after
  the header, and \<open>chunk_partial r\<close> the values of the pieces that come before the
  first one \<^verbatim>\<open>float\<close> rejects. \<open>rounds rs\<close> are the events of reading the answers
  \<open>rs\<close>, one query and one sleep of the dead time for each.
\<close>

fun all_floats :: "string list \<Rightarrow> error + pyfloat list" where
  "all_floats [] = Inr []"
| "all_floats (m # ms) =
     (case py_float m of
        Inl e \<Rightarrow> Inl e
      | Inr x \<Rightarrow> (case all_floats ms of Inl e \<Rightarrow> Inl e | Inr xs \<Rightarrow> Inr (x # xs)))"

definition chunk_values :: "string \<Rightarrow> error + pyfloat list" where
  "chunk_values r =
     (case skip_header r of Inl e \<Rightarrow> Inl e | Inr t \<Rightarrow> all_floats (split_on CHR '','' t))"

definition tokens :: "string \<Rightarrow> string list" where
  "tokens r = split_on CHR '','' (dropWhile (\<lambda>c. c \<noteq> CHR ''+'') r)"

definition chunk_partial :: "string \<Rightarrow> pyfloat list" where
  "chunk_partial r =
     (if CHR ''+'' \<in> set r
      then map (\<lambda>m. projr (py_float m)) (takeWhile (\<lambda>m. \<not> isl (py_float m)) (tokens r))
      else [])"

definition rounds :: "string list \<Rightarrow> event list" where
  "rounds rs = concat (map (\<lambda>r. [Query ''R? 5'', Sleep 1]) rs)"

lemma skip_header_eq:
  "skip_header r = (if CHR ''+'' \<in> set r then Inr (dropWhile (\<lambda>c. c \<noteq> CHR ''+'') r)
                    else Inl (IndexError ''string index out of range''))"
  by (induction r) auto

lemma add_counted_ok:
  "all_floats ms = Inr vs \<Longrightarrow>
   add_counted ms n s = (Inr (n + int (length vs)), s\<lparr>sink := sink s @ map Sample vs\<rparr>)"
proof (induction ms arbitrary: vs n s)
  case Nil
  then show ?case by (simp add: ret_apply)
next
  case (Cons m ms)
  from Cons.prems obtain x xs where x: "py_float m = Inr x" and xs: "all_floats ms = Inr xs"
    and vs: "vs = x # xs"
    by (auto split: sum.splits)
  show ?case
    using Cons.IH [OF xs] by (simp add: add_sample_def x vs run_simps)
qed

lemma add_counted_bad:
  assumes "py_float m = Inl e" and "\<forall>g \<in> set good. \<not> isl (py_float g)"
  shows "add_counted (good @ m # after) n s
           = (Inl e, s\<lparr>sink := sink s @ map Sample (map (\<lambda>g. projr (py_float g)) good)\<rparr>)"
  using assms(2)
proof (induction good arbitrary: n s)
  case Nil
  then show ?case by (simp add: add_sample_def assms(1) run_simps)
next
  case (Cons g good)
  then obtain x where x: "py_float g = Inr x"
    by (cases "py_float g") auto
  show ?case
    using Cons by (simp add: add_sample_def x run_simps)
qed

lemma all_floats_length: "all_floats ms = Inr vs \<Longrightarrow> length vs = length ms"
  by (induction ms arbitrary: vs) (auto split: sum.splits)

lemma str_step: "str_int step = ''5''"
  by (simp add: step_def str_int_simps)

lemma read_chunk_ok:
  assumes "replies s = r # rest" and "chunk_values r = Inr vs"
  shows "read_chunk s =
           (Inr (int (length vs)),
            s\<lparr>events := events s @ [Query ''R? 5'', Sleep 1], replies := rest,
              sink := sink s @ map Sample vs\<rparr>)"
proof -
  from assms(2) obtain t where t: "skip_header r = Inr t"
    and fl: "all_floats (split_on CHR '','' t) = Inr vs"
    by (auto simp: chunk_values_def split: sum.splits)
  show ?thesis
    by (simp add: read_chunk_def str_step assms(1) t add_counted_ok [OF fl] deadtime_def
                  run_simps)
qed

lemma stream_loop_prefix:
  assumes "replies s = rs @ rest"
    and "map chunk_values rs = map Inr vss"
    and "rs \<noteq> [] \<longrightarrow> i + int (length (concat (butlast vss))) < N"
  shows "stream_loop N i s =
           stream_loop N (i + int (length (concat vss)))
             (s\<lparr>events := events s @ rounds rs, replies := rest,
                sink := sink s @ map Sample (concat vss)\<rparr>)"
  using assms
proof (induction rs arbitrary: vss i s)
  case Nil
  then have "rest = replies s" and "vss = []" by simp_all
  then show ?case by (simp add: rounds_def)
next
  case (Cons r rs)
  from Cons.prems(2) obtain vs vss' where vss: "vss = vs # vss'"
    and vs: "chunk_values r = Inr vs" and vss': "map chunk_values rs = map Inr vss'"
    by (cases vss) auto
  have len: "length vss' = length rs"
    using vss' by (metis length_map)
  let ?s1 = "s\<lparr>events := events s @ [Query ''R? 5'', Sleep 1], replies := rs @ rest,
               sink := sink s @ map Sample vs\<rparr>"
  have rc: "read_chunk s = (Inr (int (length vs)), ?s1)"
    using Cons.prems(1) vs by (intro read_chunk_ok) simp_all
  have "i < N"
    using Cons.prems(3) by simp
  then have step: "stream_loop N i s = stream_loop N (i + int (length vs)) ?s1"
    by (subst stream_loop.simps) (simp add: rc)
  have cond: "rs \<noteq> [] \<longrightarrow> (i + int (length vs)) + int (length (concat (butlast vss'))) < N"
  proof
    assume "rs \<noteq> []"
    then have "vss' \<noteq> []" using len by auto
    then have "butlast vss = vs # butlast vss'" by (simp add: vss)
    then show "(i + int (length vs)) + int (length (concat (butlast vss'))) < N"
      using Cons.prems(3) by simp
  qed
  have "replies ?s1 = rs @ rest" by simp
  from Cons.IH [OF this vss' cond] show ?case
    by (simp add: step vss rounds_def add.assoc)
qed


lemma concat_butlast_le: "length (concat (butlast xss)) \<le> length (concat xss)"
  by (induction xss) auto

lemma concat_butlast_last:
  "xss \<noteq> [] \<Longrightarrow> length (concat xss) = length (concat (butlast xss)) + length (last xss)"
  by (induction xss) auto

lemma read_streaming_start:
  "read_streaming N s = stream_loop N 0 (s\<lparr>events := events s @ [Sleep 1]\<rparr>)"
  by (simp add: read_streaming_def deadtime_def)

text \<open>
  C3, amended: with sample count N the streaming read appends whole chunks. If the
  answers \<open>rs\<close> are well formed and are the fewest that hold N values together (all
  but the last hold fewer than N), the read returns after exactly these answers, and
  every value of every one of them has been appended, in order: at least N values, and
  fewer than N plus the size of the last chunk. The total is N only when the chunks
  add up to N.
\<close>

theorem read_streaming_whole_chunks:
  assumes "replies s = rs @ rest"
    and "map chunk_values rs = map Inr vss"
    and "rs \<noteq> []"
    and "int (length (concat (butlast vss))) < N"
    and "N \<le> int (length (concat vss))"
  shows "read_streaming N s =
           (Inr (), s\<lparr>events := events s @ Sleep 1 # rounds rs, replies := rest,
                       sink := sink s @ map Sample (concat vss)\<rparr>)
         \<and> int (length (concat vss)) < N + int (length (last vss))"
proof -
  let ?s0 = "s\<lparr>events := events s @ [Sleep 1]\<rparr>"
  let ?s1 = "?s0\<lparr>events := events ?s0 @ rounds rs, replies := rest,
                sink := sink ?s0 @ map Sample (concat vss)\<rparr>"
  have "replies ?s0 = rs @ rest"
    using assms(1) by simp
  moreover have "rs \<noteq> [] \<longrightarrow> 0 + int (length (concat (butlast vss))) < N"
    using assms(4) by simp
  ultimately have "stream_loop N 0 ?s0 = stream_loop N (0 + int (length (concat vss))) ?s1"
    using assms(2) by (intro stream_loop_prefix)
  also have "\<dots> = (Inr (), ?s1)"
    using assms(5) by (subst stream_loop.simps) simp
  finally have run: "read_streaming N s = (Inr (), ?s1)"
    by (simp add: read_streaming_start)
  have "vss \<noteq> []"
    using assms(2,3) by auto
  from concat_butlast_last [OF this] assms(4)
  have "int (length (concat vss)) < N + int (length (last vss))"
    by simp
  with run show ?thesis by simp
qed

lemma py_float_error:
  "py_float m = Inl e \<Longrightarrow> e = ValueError ''could not convert string to float''"
  by (auto simp: py_float_def Let_def split: option.splits)

lemma read_chunk_no_header:
  assumes "replies s = r # rest" and "CHR ''+'' \<notin> set r"
  shows "read_chunk s =
           (Inl (IndexError ''string index out of range''),
            s\<lparr>events := events s @ [Query ''R? 5''], replies := rest\<rparr>)"
  using assms by (simp add: read_chunk_def str_step skip_header_eq run_simps)

lemma read_chunk_bad_token:
  assumes "replies s = r # rest" and "CHR ''+'' \<in> set r"
    and "\<exists>m \<in> set (tokens r). isl (py_float m)"
  shows "read_chunk s =
           (Inl (ValueError ''could not convert string to float''),
            s\<lparr>events := events s @ [Query ''R? 5''], replies := rest,
              sink := sink s @ map Sample (chunk_partial r)\<rparr>)"
proof -
  let ?P = "\<lambda>m. \<not> isl (py_float m)"
  let ?good = "takeWhile ?P (tokens r)"
  have "dropWhile ?P (tokens r) \<noteq> []"
    using assms(3) by (auto simp: dropWhile_eq_Nil_conv)
  then obtain m after where d: "dropWhile ?P (tokens r) = m # after"
    by (cases "dropWhile ?P (tokens r)") auto
  then have "\<not> ?P m"
    using hd_dropWhile [of ?P "tokens r"] by auto
  then obtain e where "py_float m = Inl e"
    by (cases "py_float m") auto
  with py_float_error have m: "py_float m = Inl (ValueError ''could not convert string to float'')"
    by blast
  have split: "tokens r = ?good @ m # after"
    using takeWhile_dropWhile_id [of ?P "tokens r"] d by simp
  have good: "\<forall>g \<in> set ?good. \<not> isl (py_float g)"
    by (auto dest: set_takeWhileD)
  have "add_counted (tokens r) 0 t
          = (Inl (ValueError ''could not convert string to float''),
             t\<lparr>sink := sink t @ map Sample (chunk_partial r)\<rparr>)" for t
    using add_counted_bad [OF m good, of after 0 t] split assms(2)
    by (simp add: chunk_partial_def)
  then show ?thesis
    using assms(1,2)
    by (simp add: read_chunk_def str_step skip_header_eq tokens_def [symmetric] run_simps)
qed

text \<open>
  C9: in the streaming read, an answer in which no \<^verbatim>\<open>+\<close> is found, or one of whose
  pieces is not a number, raises an error that ends the loop: MalformedValue in the
  words of the spec, in the code the \<^verbatim>\<open>IndexError\<close> of line 223 for the header and the
  \<^verbatim>\<open>ValueError\<close> of line 227 for the piece. No further query is sent, and the result
  container holds what was appended before: the values of the earlier answers \<open>rs\<close> and
  those of the pieces of this answer that come before the bad one.
\<close>

theorem read_streaming_aborts:
  assumes "replies s = rs @ r # rest"
    and "map chunk_values rs = map Inr vss"
    and "int (length (concat vss)) < N"
    and "CHR ''+'' \<notin> set r \<or> (\<exists>m \<in> set (tokens r). isl (py_float m))"
  shows "read_streaming N s =
           (Inl (if CHR ''+'' \<in> set r then ValueError ''could not convert string to float''
                 else IndexError ''string index out of range''),
            s\<lparr>events := events s @ Sleep 1 # rounds rs @ [Query ''R? 5''],
              replies := rest,
              sink := sink s @ map Sample (concat vss @ chunk_partial r)\<rparr>)"
proof -
  let ?s0 = "s\<lparr>events := events s @ [Sleep 1]\<rparr>"
  let ?s1 = "?s0\<lparr>events := events ?s0 @ rounds rs, replies := r # rest,
                sink := sink ?s0 @ map Sample (concat vss)\<rparr>"
  have "replies ?s0 = rs @ (r # rest)"
    using assms(1) by simp
  moreover have "rs \<noteq> [] \<longrightarrow> 0 + int (length (concat (butlast vss))) < N"
    using assms(3) concat_butlast_le [of vss] by simp
  ultimately have "stream_loop N 0 ?s0 = stream_loop N (0 + int (length (concat vss))) ?s1"
    using assms(2) by (intro stream_loop_prefix)
  then have loop: "read_streaming N s = stream_loop N (int (length (concat vss))) ?s1"
    by (simp add: read_streaming_start)
  have r1: "replies ?s1 = r # rest" by simp
  show ?thesis
  proof (cases "CHR ''+'' \<in> set r")
    case True
    with assms(4) have "\<exists>m \<in> set (tokens r). isl (py_float m)" by simp
    from read_chunk_bad_token [OF r1 True this] assms(3) True show ?thesis
      unfolding loop by (subst stream_loop.simps) simp
  next
    case False
    from read_chunk_no_header [OF r1 False] assms(3) False show ?thesis
      unfolding loop by (subst stream_loop.simps) (simp add: chunk_partial_def)
  qed
qed


lemma float_signed_digit:
  "py_float ''+1'' = Inr (Fin False 1 0)" "py_float ''+2'' = Inr (Fin False 1 1)"
  "py_float ''+3'' = Inr (Fin False 3 0)" "py_float ''+4'' = Inr (Fin False 1 2)"
  "py_float ''+5'' = Inr (Fin False 5 0)" "py_float ''+6'' = Inr (Fin False 3 1)"
  "py_float ''+7'' = Inr (Fin False 7 0)" "py_float ''+8'' = Inr (Fin False 1 3)"
  "py_float ''zz'' = Inl (ValueError ''could not convert string to float'')"
  by (simp_all add: eval_float)

lemma chunk_five:
  "chunk_values ''#15+1,+2,+3,+4,+5''
     = Inr [Fin False 1 0, Fin False 1 1, Fin False 3 0, Fin False 1 2, Fin False 5 0]"
  by (simp add: chunk_values_def float_signed_digit)

lemma chunk_three:
  "chunk_values ''#13+6,+7,+8'' = Inr [Fin False 3 1, Fin False 7 0, Fin False 1 3]"
  by (simp add: chunk_values_def float_signed_digit)

text \<open>The amended C3 for seven samples and chunks of five and three values: eight values
  are appended, and the third answer is not read.\<close>

theorem read_streaming_whole_chunks_witness:
  "read_streaming 7 (new_engine False [''#15+1,+2,+3,+4,+5'', ''#13+6,+7,+8'', ''#11+9'']) =
     (Inr (),
      (new_engine False [''#11+9''])
        \<lparr>events := [Sleep 1, Query ''R? 5'', Sleep 1, Query ''R? 5'', Sleep 1],
          sink := map Sample [Fin False 1 0, Fin False 1 1, Fin False 3 0, Fin False 1 2,
                              Fin False 5 0, Fin False 3 1, Fin False 7 0, Fin False 1 3]\<rparr>)"
proof -
  let ?rs = "[''#15+1,+2,+3,+4,+5'', ''#13+6,+7,+8'']"
  let ?vss = "[[Fin False 1 0, Fin False 1 1, Fin False 3 0, Fin False 1 2, Fin False 5 0],
               [Fin False 3 1, Fin False 7 0, Fin False 1 3]]"
  let ?s = "new_engine False [''#15+1,+2,+3,+4,+5'', ''#13+6,+7,+8'', ''#11+9'']"
  have a: "replies ?s = ?rs @ [''#11+9'']"
    by (simp add: new_engine_def)
  have b: "map chunk_values ?rs = map Inr ?vss"
    by (simp add: chunk_five chunk_three)
  have c: "?rs \<noteq> []" by simp
  have d: "int (length (concat (butlast ?vss))) < 7" by simp
  have e: "7 \<le> int (length (concat ?vss))" by simp
  show ?thesis
    using read_streaming_whole_chunks [OF a b c d e]
    by (simp add: new_engine_def rounds_def)
qed

text \<open>C9 for seven samples, a first answer of five values and a second whose second piece
  is not a number.\<close>

theorem read_streaming_aborts_witness:
  "read_streaming 7 (new_engine False [''#15+1,+2,+3,+4,+5'', ''#13+6,zz,+8'', ''#11+9'']) =
     (Inl (ValueError ''could not convert string to float''),
      (new_engine False [''#11+9''])
        \<lparr>events := [Sleep 1, Query ''R? 5'', Sleep 1, Query ''R? 5''],
          sink := map Sample [Fin False 1 0, Fin False 1 1, Fin False 3 0, Fin False 1 2,
                              Fin False 5 0, Fin False 3 1]\<rparr>)"
proof -
  let ?rs = "[''#15+1,+2,+3,+4,+5'']"
  let ?vss = "[[Fin False 1 0, Fin False 1 1, Fin False 3 0, Fin False 1 2, Fin False 5 0]]"
  let ?r = "''#13+6,zz,+8''"
  let ?s = "new_engine False [''#15+1,+2,+3,+4,+5'', ''#13+6,zz,+8'', ''#11+9'']"
  have a: "replies ?s = ?rs @ ?r # [''#11+9'']"
    by (simp add: new_engine_def)
  have b: "map chunk_values ?rs = map Inr ?vss"
    by (simp add: chunk_five)
  have c: "int (length (concat ?vss)) < 7" by simp
  have t: "tokens ?r = [''+6'', ''zz'', ''+8'']"
    by (simp add: tokens_def)
  have d: "CHR ''+'' \<notin> set ?r \<or> (\<exists>m \<in> set (tokens ?r). isl (py_float m))"
    by (simp add: t float_signed_digit)
  have p: "chunk_partial ?r = [Fin False 3 1]"
    by (simp add: chunk_partial_def t float_signed_digit)
  show ?thesis
    using read_streaming_aborts [OF a b c d]
    by (simp add: new_engine_def rounds_def p)
qed


text \<open>
  C3, as the spec states it: with sample count N the streaming read appends exactly N
  values, cutting the last chunk short if it would pass N. The code appends every
  piece of every answer: three samples asked, one answer with five values, five values
  appended.
\<close>

theorem freq_streaming_overshoots:
  "freq ''exp:10E6 res:10 ch:1 sampl:3 cou:dc'' True (armed [''#15+1,+2,+3,+4,+5'']) =
     (Inr (),
      (armed [])\<lparr>freq_rawcfg := Some ''exp:10E6 res:10 ch:1 sampl:3 cou:dc'',
         events := [Write ''TRIGGer:COUNt 1'',
                    Write ''CONF:FREQ 10E6,1e-10,(@1)'', Write ''SAMP:COUN 1'',
                    Write ''TRIG:COUN 3'', Write ''TRIGGer:COUNt 1'',
                    Write ''INPUT1:COUPLING dc'', Write ''SENS:FREQ:GATE:TIME .1'',
                    Write ''INIT'', Sleep 1, Query ''R? 5'', Sleep 1],
         sink := [Sample (Fin False 1 0), Sample (Fin False 1 1), Sample (Fin False 3 0),
                  Sample (Fin False 1 2), Sample (Fin False 5 0)]\<rparr>)"
proof -
  have run: "read_streaming 3 t =
               (Inr (), t\<lparr>events := events t @ [Sleep 1, Query ''R? 5'', Sleep 1],
                           replies := [],
                           sink := sink t @ map Sample [Fin False 1 0, Fin False 1 1,
                                     Fin False 3 0, Fin False 1 2, Fin False 5 0]\<rparr>)"
    if "replies t = [''#15+1,+2,+3,+4,+5'']" for t
  proof -
    let ?t0 = "t\<lparr>events := events t @ [Sleep 1]\<rparr>"
    have "replies ?t0 = ''#15+1,+2,+3,+4,+5'' # []"
      using that by simp
    from read_chunk_ok [OF this chunk_five] show ?thesis
      unfolding read_streaming_start
      by (subst stream_loop.simps, simp, subst stream_loop.simps, simp)
  qed
  show ?thesis
    unfolding freq_setup3
    by (simp add: blocking_def run armed_eq new_engine_def)
qed

end
